theory Spec2Isabelle
  imports Complex_Main "HOL-Library.Word"
begin

unbundle bit_operations_syntax

section \<open>Binary primitives shared by the KN5 writer and reader\<close>

type_synonym byte = "8 word"

text \<open>
  Python exceptions and process exits that the modelled functions can end in.
  \<open>BadStringLength n\<close> is the \<open>ValueError\<close> of \<open>read_string\<close> (its message carries
  the declared length), \<open>StructError\<close> is \<open>struct.error\<close> (a value outside the range of
  the format, or a buffer of the wrong size), \<open>OverflowError\<close> is a float too large for
  format \<open>f\<close>, \<open>IndexError\<close> an out-of-range subscript, \<open>ValueError\<close> any other
  \<open>ValueError\<close> raised by numpy, \<open>AttributeError\<close> an attribute read on \<open>None\<close>,
  \<open>RecursionError\<close> the exhausted recursion budget of the recursive node parser,
  \<open>FileNotFoundError\<close> what \<open>os.makedirs\<close> raises on the empty path.
  \<open>SystemExit c m\<close> is \<open>sys.exit(c)\<close> after the \<open>ERROR\<close> line \<open>m\<close> has been printed.
\<close>

datatype message =
    NoBoundaryEdges
  | ObjectNotFound
  | ExpectedTwoLoops nat

datatype error =
    BadStringLength int
  | StructError
  | OverflowError
  | IndexError
  | ValueError
  | AttributeError
  | RecursionError
  | FileNotFoundError
  | SystemExit int message

definition le16 :: "16 word \<Rightarrow> byte list" where
  "le16 w = [ucast w, ucast (drop_bit 8 w)]"

definition le32 :: "32 word \<Rightarrow> byte list" where
  "le32 w = [ucast w, ucast (drop_bit 8 w), ucast (drop_bit 16 w), ucast (drop_bit 24 w)]"

definition from_le16 :: "byte list \<Rightarrow> 16 word" where
  "from_le16 bs = ucast (bs ! 0) OR push_bit 8 (ucast (bs ! 1))"

definition from_le32 :: "byte list \<Rightarrow> 32 word" where
  "from_le32 bs = ucast (bs ! 0) OR push_bit 8 (ucast (bs ! 1))
                  OR push_bit 16 (ucast (bs ! 2)) OR push_bit 24 (ucast (bs ! 3))"

text \<open>\<open>struct.pack('<i', v)\<close>: raises \<open>struct.error\<close> outside the signed 32-bit range.\<close>

definition pack_i :: "int \<Rightarrow> error + byte list" where
  "pack_i v = (if - (2 ^ 31) \<le> v \<and> v < 2 ^ 31 then Inr (le32 (word_of_int v)) else Inl StructError)"

text \<open>\<open>struct.pack('<H', v)\<close>: raises \<open>struct.error\<close> outside \<open>0..65535\<close>.\<close>

definition pack_H :: "int \<Rightarrow> error + byte list" where
  "pack_H v = (if 0 \<le> v \<and> v \<le> 65535 then Inr (le16 (word_of_int v)) else Inl StructError)"

text \<open>\<open>struct.pack('<B', v)\<close>.\<close>

definition pack_B :: "int \<Rightarrow> error + byte list" where
  "pack_B v = (if 0 \<le> v \<and> v \<le> 255 then Inr [word_of_int v] else Inl StructError)"

text \<open>
  \<open>struct.pack('<f', x)\<close> rounds a Python float to IEEE binary32. The rounding itself is
  not modelled: it is the parameter \<open>f32\<close>, which gives the 32-bit pattern of the rounded
  value, or \<open>None\<close> where \<open>struct\<close> raises \<open>OverflowError\<close>.
\<close>

type_synonym f32enc = "real \<Rightarrow> 32 word option"

definition pack_f :: "f32enc \<Rightarrow> real \<Rightarrow> error + byte list" where
  "pack_f f32 x = (case f32 x of None \<Rightarrow> Inl OverflowError | Some w \<Rightarrow> Inr (le32 w))"

text \<open>\<open>struct.unpack('<i', b)[0]\<close>: the buffer must hold exactly four bytes.\<close>

definition unpack_i :: "byte list \<Rightarrow> error + int" where
  "unpack_i b = (if length b = 4 then Inr (sint (from_le32 b)) else Inl StructError)"

text \<open>
  \<open>f.read(n)\<close> on the rest of the stream: a short stream gives fewer bytes and no error,
  a negative \<open>n\<close> reads to the end.
\<close>

definition read :: "int \<Rightarrow> byte list \<Rightarrow> byte list \<times> byte list" where
  "read n bs = (if n < 0 then (bs, []) else (take (nat n) bs, drop (nat n) bs))"

text \<open>
  \<open>read_string\<close> of the viewer. The Python returns \<open>bytes.decode('utf-8',
  errors='replace')\<close>, a total function of the bytes read; the model returns those bytes.
\<close>

definition read_string :: "byte list \<Rightarrow> error + (byte list \<times> byte list)" where
  "read_string bs =
     (case unpack_i (fst (read 4 bs)) of
        Inl e \<Rightarrow> Inl e
      | Inr len \<Rightarrow>
          if len < 0 \<or> len > 10000 then Inl (BadStringLength len)
          else Inr (read len (snd (read 4 bs))))"


section \<open>Racing-line generator: boundary loops of the road mesh\<close>

type_synonym vec3 = "real \<times> real \<times> real"
type_synonym vec2 = "real \<times> real"

text \<open>
  The part of a \<open>bmesh\<close> that \<open>_chain_boundary_loops\<close> reads. Edges and vertices are
  named by their index. \<open>e_verts\<close> is \<open>edge.verts\<close>, \<open>is_boundary\<close> the flag Blender
  computes, \<open>link_edges v\<close> the edges at vertex \<open>v\<close> in Blender's order, \<open>co v\<close> the local
  coordinates of \<open>v\<close>.
\<close>

record bm_edge =
  e_verts :: "nat \<times> nat"
  is_boundary :: bool

record bmesh =
  edges :: "bm_edge list"
  link_edges :: "nat \<Rightarrow> nat list"
  co :: "nat \<Rightarrow> vec3"

text \<open>\<open>[e for e in bm.edges if e.is_boundary]\<close>, as edge indices.\<close>

definition boundary_edges :: "bmesh \<Rightarrow> nat list" where
  "boundary_edges bm = filter (\<lambda>i. is_boundary (edges bm ! i)) [0..<length (edges bm)]"

text \<open>\<open>edge.other_vert(v)\<close>: \<open>None\<close> when \<open>v\<close> is not an end of the edge.\<close>

definition other_vert :: "bmesh \<Rightarrow> nat \<Rightarrow> nat \<Rightarrow> nat option" where
  "other_vert bm e v =
     (if e < length (edges bm) then
        (let (a, b) = e_verts (edges bm ! e)
         in if v = a then Some b else if v = b then Some a else None)
      else None)"

text \<open>
  The \<open>while current not in visited\<close> loop of \<open>_chain_boundary_loops\<close>: one walk from
  \<open>current\<close>, entered at vertex \<open>v\<close>. \<open>world_mat\<close> is the map \<open>co \<mapsto> world_mat @ co\<close>.
  It returns the visited set and the vertices recorded.
\<close>

function walk :: "bmesh \<Rightarrow> (vec3 \<Rightarrow> vec3) \<Rightarrow> nat set \<Rightarrow> nat \<Rightarrow> nat \<Rightarrow> vec3 list
                  \<Rightarrow> error + (nat set \<times> vec3 list)" where
  "walk bm world_mat visited current v loop_verts =
     (if current \<in> visited then Inr (visited, loop_verts)
      else
        (case other_vert bm current v of
           None \<Rightarrow> Inl AttributeError
         | Some other \<Rightarrow>
             (case find (\<lambda>e. e \<in> set (boundary_edges bm) \<and> e \<notin> insert current visited)
                        (link_edges bm other) of
                None \<Rightarrow> Inr (insert current visited, loop_verts @ [world_mat (co bm v)])
              | Some next_edge \<Rightarrow>
                  walk bm world_mat (insert current visited) next_edge other
                       (loop_verts @ [world_mat (co bm v)]))))"
  by pat_completeness auto
termination
proof (relation "measure (\<lambda>(bm, world_mat, visited, current, v, loop_verts).
                    card (set (boundary_edges bm) - visited - {current}))")
  show "wf (measure (\<lambda>(bm, world_mat, visited, current, v, loop_verts).
                    card (set (boundary_edges bm) - visited - {current})))"
    by simp
next
  fix bm :: bmesh and world_mat :: "vec3 \<Rightarrow> vec3" and visited :: "nat set"
    and current v :: nat and loop_verts :: "vec3 list" and other next_edge :: nat
  assume "find (\<lambda>e. e \<in> set (boundary_edges bm) \<and> e \<notin> insert current visited)
            (link_edges bm other) = Some next_edge"
  then have nxt: "next_edge \<in> set (boundary_edges bm)" "next_edge \<notin> insert current visited"
    by (auto simp add: find_Some_iff)
  have "set (boundary_edges bm) - insert current visited - {next_edge}
        \<subset> set (boundary_edges bm) - visited - {current}"
    using nxt by auto
  then have "card (set (boundary_edges bm) - insert current visited - {next_edge})
        < card (set (boundary_edges bm) - visited - {current})"
    by (intro psubset_card_mono) simp_all
  then show "((bm, world_mat, insert current visited, next_edge, other,
               loop_verts @ [world_mat (co bm v)]),
              (bm, world_mat, visited, current, v, loop_verts))
             \<in> measure (\<lambda>(bm, world_mat, visited, current, v, loop_verts).
                    card (set (boundary_edges bm) - visited - {current}))"
    by simp
qed

text \<open>
  The \<open>for start_edge in boundary_edges\<close> loop, over the start edges still to come, with
  the \<open>visited\<close> set and the \<open>loops\<close> collected so far.
\<close>

fun chain_from :: "bmesh \<Rightarrow> (vec3 \<Rightarrow> vec3) \<Rightarrow> nat list \<Rightarrow> nat set \<Rightarrow> vec3 list list
                   \<Rightarrow> error + vec3 list list" where
  "chain_from bm world_mat [] visited loops = Inr loops"
| "chain_from bm world_mat (start_edge # rest) visited loops =
     (if start_edge \<in> visited then chain_from bm world_mat rest visited loops
      else
        (case walk bm world_mat visited start_edge (fst (e_verts (edges bm ! start_edge))) [] of
           Inl e \<Rightarrow> Inl e
         | Inr (visited', loop_verts) \<Rightarrow>
             chain_from bm world_mat rest visited'
               (if length loop_verts > 2 then loops @ [loop_verts] else loops)))"

definition chain_boundary_loops :: "bmesh \<Rightarrow> (vec3 \<Rightarrow> vec3) \<Rightarrow> error + vec3 list list" where
  "chain_boundary_loops bm world_mat =
     (if boundary_edges bm = [] then Inl (SystemExit 1 NoBoundaryEdges)
      else chain_from bm world_mat (boundary_edges bm) {} [])"

text \<open>
  Every walk the \<open>for\<close> loop makes, kept or not: the same loop with the test
  \<open>len(loop_verts) > 2\<close> taken out. It is what the returned list is compared with.
\<close>

fun walks_from :: "bmesh \<Rightarrow> (vec3 \<Rightarrow> vec3) \<Rightarrow> nat list \<Rightarrow> nat set \<Rightarrow> error + vec3 list list" where
  "walks_from bm world_mat [] visited = Inr []"
| "walks_from bm world_mat (start_edge # rest) visited =
     (if start_edge \<in> visited then walks_from bm world_mat rest visited
      else
        (case walk bm world_mat visited start_edge (fst (e_verts (edges bm ! start_edge))) [] of
           Inl e \<Rightarrow> Inl e
         | Inr (visited', loop_verts) \<Rightarrow>
             (case walks_from bm world_mat rest visited' of
                Inl e \<Rightarrow> Inl e
              | Inr ws \<Rightarrow> Inr (loop_verts # ws))))"

definition chained_walks :: "bmesh \<Rightarrow> (vec3 \<Rightarrow> vec3) \<Rightarrow> error + vec3 list list" where
  "chained_walks bm world_mat =
     (if boundary_edges bm = [] then Inl (SystemExit 1 NoBoundaryEdges)
      else walks_from bm world_mat (boundary_edges bm) {})"


section \<open>Racing-line generator: centerline of the two loops\<close>

text \<open>
  numpy computes in IEEE double precision. The model computes with real numbers, so it
  leaves out rounding and overflow; the values IEEE adds to the numbers are modelled
  where a division can produce them (see \<open>npfloat\<close> below).
\<close>

text \<open>\<open>np.sum((q - p) ** 2)\<close> for two points.\<close>

definition dist2 :: "vec3 \<Rightarrow> vec3 \<Rightarrow> real" where
  "dist2 q p = (case q of (qx, qy, qz) \<Rightarrow> case p of (px, py, pz) \<Rightarrow>
                  (qx - px)\<^sup>2 + (qy - py)\<^sup>2 + (qz - pz)\<^sup>2)"

text \<open>
  \<open>np.argmin\<close>: the first index of the least element. \<open>argmin_from\<close> scans the rest of the
  array at index \<open>i\<close> with the best index and value so far.
\<close>

fun argmin_from :: "real list \<Rightarrow> nat \<Rightarrow> nat \<Rightarrow> real \<Rightarrow> nat" where
  "argmin_from [] i best bv = best"
| "argmin_from (x # xs) i best bv =
     (if x < bv then argmin_from xs (Suc i) i x else argmin_from xs (Suc i) best bv)"

definition argmin :: "real list \<Rightarrow> error + nat" where
  "argmin ds = (case ds of [] \<Rightarrow> Inl ValueError | d # rest \<Rightarrow> Inr (argmin_from rest 1 0 d))"

text \<open>\<open>np.roll(a, -k, axis=0)\<close> for \<open>0 \<le> k\<close>.\<close>

definition roll_back :: "nat \<Rightarrow> 'a list \<Rightarrow> 'a list" where
  "roll_back k xs = (if xs = [] then [] else drop (k mod length xs) xs @ take (k mod length xs) xs)"

text \<open>
  The alignment step used twice in \<open>extract_centerline\<close>: the squared distances of the
  points of \<open>loop_b\<close> from \<open>p\<close>, their \<open>argmin\<close>, and the roll when the offset is positive.
\<close>

definition align_start :: "vec3 \<Rightarrow> vec3 list \<Rightarrow> error + vec3 list" where
  "align_start p loop_b =
     (case argmin (map (\<lambda>q. dist2 q p) loop_b) of
        Inl e \<Rightarrow> Inl e
      | Inr offset \<Rightarrow> Inr (if offset > 0 then roll_back offset loop_b else loop_b))"

definition midpoint :: "vec3 \<Rightarrow> vec3 \<Rightarrow> vec3" where
  "midpoint a b = (case a of (ax, ay, az) \<Rightarrow> case b of (bx, by, bz) \<Rightarrow>
                     ((ax + bx) / 2, (ay + by) / 2, (az + bz) / 2))"

text \<open>
  \<open>np.sum(pts[:-1, 0] * pts[1:, 1] - pts[1:, 0] * pts[:-1, 1])\<close> on the \<open>(x, y)\<close>
  columns: one term for each pair of consecutive rows of the array.
\<close>

fun signed_area :: "vec3 list \<Rightarrow> real" where
  "signed_area [] = 0"
| "signed_area [p] = 0"
| "signed_area (p # q # ps) =
     (fst p * fst (snd q) - fst q * fst (snd p)) + signed_area (q # ps)"

text \<open>
  \<open>extract_centerline\<close> from the line \<open>loop_a, loop_b = loops[0], loops[1]\<close> on. The
  subscripts \<open>loop_a[0]\<close>, \<open>loop_a[1]\<close>, \<open>loop_b[1]\<close>, \<open>loop_b[-1]\<close> raise \<open>IndexError\<close>
  on arrays of fewer than two rows.
\<close>

definition centerline_of :: "vec3 list \<Rightarrow> vec3 list \<Rightarrow> error + vec3 list" where
  "centerline_of loop_a0 loop_b0 =
     (let min_len = min (length loop_a0) (length loop_b0);
          loop_a = (if length loop_a0 \<noteq> length loop_b0 then take min_len loop_a0 else loop_a0);
          loop_b = (if length loop_a0 \<noteq> length loop_b0 then take min_len loop_b0 else loop_b0)
      in if length loop_a < 2 then Inl IndexError
         else
           (case align_start (loop_a ! 0) loop_b of
              Inl e \<Rightarrow> Inl e
            | Inr loop_b1 \<Rightarrow>
                (let d_fwd = dist2 (loop_a ! 1) (loop_b1 ! 1);
                     d_bwd = dist2 (loop_a ! 1) (last loop_b1)
                 in case (if d_bwd < d_fwd then align_start (loop_a ! 0) (rev loop_b1)
                          else Inr loop_b1) of
                      Inl e \<Rightarrow> Inl e
                    | Inr loop_b2 \<Rightarrow>
                        (let centerline = map2 midpoint loop_a loop_b2
                         in Inr (if signed_area centerline > 0 then rev centerline
                                 else centerline)))))"

text \<open>
  What \<open>extract_centerline\<close> reads of the Blender scene: the object \<open>1ROAD\<close> (its mesh and
  its \<open>matrix_world\<close>, as a map on points) and the translation of \<open>AC_START_0\<close>.
\<close>

record scene =
  road :: "(bmesh \<times> (vec3 \<Rightarrow> vec3)) option"
  start_marker :: "vec3 option"

definition extract_centerline :: "scene \<Rightarrow> error + vec3 list" where
  "extract_centerline sc =
     (case road sc of
        None \<Rightarrow> Inl (SystemExit 1 ObjectNotFound)
      | Some (bm, world_mat) \<Rightarrow>
          (case chain_boundary_loops bm world_mat of
             Inl e \<Rightarrow> Inl e
           | Inr loops \<Rightarrow>
               if length loops \<noteq> 2 then Inl (SystemExit 1 (ExpectedTwoLoops (length loops)))
               else centerline_of (loops ! 0) (loops ! 1)))"

text \<open>
  The signed area of the closed polygon through the points, by the shoelace formula:
  the terms of \<open>signed_area\<close> and the term of the closing edge from the last point back to
  the first, halved. Positive is counter-clockwise. This is the quantity the
  specification's direction invariant names.
\<close>

definition polygon_area :: "vec3 list \<Rightarrow> real" where
  "polygon_area ps = (if ps = [] then 0 else signed_area (ps @ [hd ps]) / 2)"


section \<open>Racing-line generator: curvature and speed profile\<close>

text \<open>\<open>np.linalg.norm\<close> of a 2D and of a 3D vector.\<close>

definition norm2 :: "vec2 \<Rightarrow> real" where
  "norm2 v = sqrt ((fst v)\<^sup>2 + (snd v)\<^sup>2)"

definition norm3 :: "vec3 \<Rightarrow> real" where
  "norm3 v = (case v of (x, y, z) \<Rightarrow> sqrt (x\<^sup>2 + y\<^sup>2 + z\<^sup>2))"

text \<open>The body of the loop of \<open>compute_curvature\<close> at index \<open>i\<close>; \<open>(i - 1) % n\<close> wraps.\<close>

definition curvature_at :: "vec2 list \<Rightarrow> nat \<Rightarrow> real" where
  "curvature_at pts_2d i =
     (let n = length pts_2d;
          p0 = pts_2d ! ((i + n - 1) mod n);
          p1 = pts_2d ! i;
          p2 = pts_2d ! ((i + 1) mod n);
          v1 = (fst p1 - fst p0, snd p1 - snd p0);
          v2 = (fst p2 - fst p1, snd p2 - snd p1);
          cross = \<bar>fst v1 * snd v2 - snd v1 * fst v2\<bar>;
          l1 = norm2 v1;
          l2 = norm2 v2
      in if l1 > 0 \<and> l2 > 0 then cross / (l1 * l2) else 0)"

definition compute_curvature :: "vec2 list \<Rightarrow> real list" where
  "compute_curvature pts_2d = map (curvature_at pts_2d) [0..<length pts_2d]"

text \<open>
  A numpy float after a division: a number, an infinity or NaN. Arithmetic on the
  numbers is exact; the sign of a zero is not modelled (every zero divisor below is
  \<open>+0.0\<close>: a percentile or a maximum of non-negative numbers).
\<close>

datatype npfloat = Fin real | PInf | NInf | NaN

text \<open>\<open>x / d\<close> for two numbers: numpy warns and gives an infinity or NaN when \<open>d = 0\<close>.\<close>

definition np_div :: "real \<Rightarrow> real \<Rightarrow> npfloat" where
  "np_div x d = (if d \<noteq> 0 then Fin (x / d) else if x > 0 then PInf else if x < 0 then NInf else NaN)"

text \<open>\<open>np.clip(a, 0, 1)\<close>: NaN stays NaN.\<close>

fun np_clip01 :: "npfloat \<Rightarrow> npfloat" where
  "np_clip01 (Fin x) = Fin (min (max x 0) 1)"
| "np_clip01 PInf = Fin 1"
| "np_clip01 NInf = Fin 0"
| "np_clip01 NaN = NaN"

text \<open>\<open>a * c\<close> and \<open>c - a\<close> for a number \<open>c\<close>, and \<open>a + b\<close> and \<open>a / b\<close>.\<close>

fun fl_scale :: "npfloat \<Rightarrow> real \<Rightarrow> npfloat" where
  "fl_scale (Fin x) c = Fin (x * c)"
| "fl_scale PInf c = (if c > 0 then PInf else if c < 0 then NInf else NaN)"
| "fl_scale NInf c = (if c > 0 then NInf else if c < 0 then PInf else NaN)"
| "fl_scale NaN c = NaN"

fun fl_rsub :: "real \<Rightarrow> npfloat \<Rightarrow> npfloat" where
  "fl_rsub c (Fin x) = Fin (c - x)"
| "fl_rsub c PInf = NInf"
| "fl_rsub c NInf = PInf"
| "fl_rsub c NaN = NaN"

fun fl_add :: "npfloat \<Rightarrow> npfloat \<Rightarrow> npfloat" where
  "fl_add NaN b = NaN"
| "fl_add a NaN = NaN"
| "fl_add (Fin x) (Fin y) = Fin (x + y)"
| "fl_add PInf NInf = NaN"
| "fl_add NInf PInf = NaN"
| "fl_add PInf b = PInf"
| "fl_add NInf b = NInf"
| "fl_add (Fin x) b = b"

fun fl_div :: "npfloat \<Rightarrow> npfloat \<Rightarrow> npfloat" where
  "fl_div NaN b = NaN"
| "fl_div a NaN = NaN"
| "fl_div (Fin x) (Fin d) = np_div x d"
| "fl_div (Fin x) b = Fin 0"
| "fl_div PInf (Fin d) = (if d \<ge> 0 then PInf else NInf)"
| "fl_div NInf (Fin d) = (if d \<ge> 0 then NInf else PInf)"
| "fl_div a b = NaN"

text \<open>\<open>np.max\<close> of a non-empty array: NaN if any element is NaN.\<close>

fun fl_max2 :: "npfloat \<Rightarrow> npfloat \<Rightarrow> npfloat" where
  "fl_max2 NaN b = NaN"
| "fl_max2 a NaN = NaN"
| "fl_max2 PInf b = PInf"
| "fl_max2 a PInf = PInf"
| "fl_max2 NInf b = b"
| "fl_max2 a NInf = a"
| "fl_max2 (Fin x) (Fin y) = Fin (max x y)"

definition fl_max :: "npfloat list \<Rightarrow> error + npfloat" where
  "fl_max xs = (case xs of [] \<Rightarrow> Inl ValueError | x # rest \<Rightarrow> Inr (foldl fl_max2 x rest))"

text \<open>
  \<open>np.percentile(a, 95)\<close> of a non-empty array, with numpy's linear interpolation
  between the two order statistics around the position \<open>0.95 * (n - 1)\<close>.
\<close>

definition percentile95 :: "real list \<Rightarrow> real" where
  "percentile95 a =
     (let s = sort a;
          n = length a;
          lo = (95 * (n - 1)) div 100;
          hi = min (lo + 1) (n - 1);
          g = real ((95 * (n - 1)) mod 100) / 100
      in s ! lo + (s ! hi - s ! lo) * g)"

text \<open>
  \<open>np.convolve(a, v, mode='same')\<close> for non-empty arrays. \<open>conv_full_at a v k\<close> is entry
  \<open>k\<close> of the full convolution, the sum of \<open>a[i] * v[k - i]\<close> over the \<open>i\<close> where both
  subscripts are in range; mode \<open>same\<close> keeps \<open>max(len(a), len(v))\<close> entries from entry
  \<open>m - m div 2 - 1\<close> on, where \<open>m\<close> is the length of the shorter array.
\<close>

definition conv_full_at :: "npfloat list \<Rightarrow> real list \<Rightarrow> nat \<Rightarrow> npfloat" where
  "conv_full_at a v k =
     (let terms = map (\<lambda>i. fl_scale (a ! i) (v ! (k - i)))
                      (filter (\<lambda>i. i \<le> k \<and> k - i < length v) [0..<length a])
      in case terms of [] \<Rightarrow> Fin 0 | t # ts \<Rightarrow> foldl fl_add t ts)"

definition convolve_same :: "npfloat list \<Rightarrow> real list \<Rightarrow> npfloat list" where
  "convolve_same a v =
     (let m = min (length a) (length v);
          start = m - m div 2 - 1
      in map (\<lambda>k. conv_full_at a v (start + k)) [0..<max (length a) (length v)])"

text \<open>
  The speeds of \<open>compute_speeds\<close> before the smoothing: the array \<open>speeds\<close> after the line
  \<open>speeds = DEFAULT_SPEED - norm_curv * (DEFAULT_SPEED - MIN_CORNER_SPEED)\<close>.
  \<open>np.max\<close> raises \<open>ValueError\<close> on an empty array.
\<close>

definition raw_speeds :: "real \<Rightarrow> real \<Rightarrow> real list \<Rightarrow> error + npfloat list" where
  "raw_speeds DEFAULT_SPEED MIN_CORNER_SPEED curvature =
     (if curvature = [] then Inl ValueError
      else
        (let max_curv = (if Max (set curvature) > 0 then percentile95 curvature else 1);
             norm_curv = map (\<lambda>c. np_clip01 (np_div c max_curv)) curvature
         in Inr (map (\<lambda>nc. fl_rsub DEFAULT_SPEED (fl_scale nc (DEFAULT_SPEED - MIN_CORNER_SPEED)))
                     norm_curv)))"

definition compute_speeds :: "real \<Rightarrow> real \<Rightarrow> real list \<Rightarrow> error + npfloat list" where
  "compute_speeds DEFAULT_SPEED MIN_CORNER_SPEED curvature =
     (case raw_speeds DEFAULT_SPEED MIN_CORNER_SPEED curvature of
        Inl e \<Rightarrow> Inl e
      | Inr speeds \<Rightarrow> Inr (convolve_same speeds (replicate 15 (1 / 15))))"


section \<open>Racing-line generator: the file written\<close>

text \<open>
  The content of \<open>fast_lane.ai\<close>, field by field, before \<open>struct.pack\<close> turns each value
  into four bytes: the header, one row \<open>((x, y, z), cumDist, id)\<close> for each point, and
  the four sections, each a count and its values.
\<close>

record ai_file =
  header :: "int list"
  points :: "(vec3 \<times> real \<times> int) list"
  speed_section :: "int \<times> npfloat list"
  gas_section :: "int \<times> npfloat list"
  brake_section :: "int \<times> npfloat list"
  lateral_section :: "int \<times> real list"

text \<open>The file system as the script changes it: directories made, files written.\<close>

record filesystem =
  dirs :: "string set"
  files :: "string \<Rightarrow> ai_file option"

text \<open>\<open>os.path.dirname\<close> on a POSIX path.\<close>

definition dirname :: "string \<Rightarrow> string" where
  "dirname p =
     (let head = rev (dropWhile (\<lambda>c. c \<noteq> CHR ''/'') (rev p))
      in if filter (\<lambda>c. c \<noteq> CHR ''/'') head \<noteq> []
         then rev (dropWhile (\<lambda>c. c = CHR ''/'') (rev head)) else head)"

definition OUTPUT_PATH :: string where
  "OUTPUT_PATH = ''mod/pista_caudina/ai/fast_lane.ai''"

definition find_start_index :: "scene \<Rightarrow> vec3 list \<Rightarrow> error + nat" where
  "find_start_index sc pts_blender =
     (case start_marker sc of
        None \<Rightarrow> Inr 0
      | Some pos \<Rightarrow>
          argmin (map (\<lambda>p. (fst p - fst pos)\<^sup>2 + (fst (snd p) - fst (snd pos))\<^sup>2) pts_blender))"

text \<open>
  The lines of \<open>write_ai_file\<close> under \<open>Reindex to start from start/finish line\<close>: the
  centerline rolled so that the point nearest to the marker comes first.
\<close>

definition reindex :: "scene \<Rightarrow> vec3 list \<Rightarrow> error + vec3 list" where
  "reindex sc centerline_blender =
     (case find_start_index sc centerline_blender of
        Inl e \<Rightarrow> Inl e
      | Inr start_idx \<Rightarrow>
          Inr (if start_idx > 0 then roll_back start_idx centerline_blender
               else centerline_blender))"

text \<open>Blender \<open>(x, y, z)\<close> to the engine's \<open>(x, z, -y)\<close>.\<close>

definition to_ac :: "vec3 \<Rightarrow> vec3" where
  "to_ac p = (case p of (x, y, z) \<Rightarrow> (x, z, - y))"

definition vsub :: "vec3 \<Rightarrow> vec3 \<Rightarrow> vec3" where
  "vsub q p = (case q of (qx, qy, qz) \<Rightarrow> case p of (px, py, pz) \<Rightarrow> (qx - px, qy - py, qz - pz))"

text \<open>\<open>np.linalg.norm(np.diff(ac_pts, axis=0), axis=1)\<close>.\<close>

fun seg_lengths :: "vec3 list \<Rightarrow> real list" where
  "seg_lengths [] = []"
| "seg_lengths [p] = []"
| "seg_lengths (p # q # ps) = norm3 (vsub q p) # seg_lengths (q # ps)"

text \<open>\<open>np.cumsum\<close>, with the running sum so far.\<close>

fun cumsum_from :: "real \<Rightarrow> real list \<Rightarrow> real list" where
  "cumsum_from acc [] = []"
| "cumsum_from acc (x # xs) = (acc + x) # cumsum_from (acc + x) xs"

text \<open>\<open>cum_dist = np.zeros(n); cum_dist[1:] = np.cumsum(seg_lengths)\<close>.\<close>

definition cum_dist :: "vec3 list \<Rightarrow> real list" where
  "cum_dist ac_pts = (if ac_pts = [] then [] else 0 # cumsum_from 0 (seg_lengths ac_pts))"

text \<open>
  \<open>write_ai_file\<close>. The directory is made first; the file is opened only after every
  array has been computed, so an exception before that leaves no file. \<open>DEFAULT_SPEED\<close>
  and \<open>MIN_CORNER_SPEED\<close> are the two module globals read from the track configuration.
\<close>

definition write_ai_file ::
    "real \<Rightarrow> real \<Rightarrow> scene \<Rightarrow> vec3 list \<Rightarrow> string \<Rightarrow> filesystem \<Rightarrow> error option \<times> filesystem" where
  "write_ai_file DEFAULT_SPEED MIN_CORNER_SPEED sc centerline_blender0 output_path fs =
     (if dirname output_path = [] then (Some FileNotFoundError, fs)
      else
        (let fs1 = fs\<lparr>dirs := insert (dirname output_path) (dirs fs)\<rparr>
         in case reindex sc centerline_blender0 of
              Inl e \<Rightarrow> (Some e, fs1)
            | Inr centerline_blender \<Rightarrow>
                (let n = length centerline_blender;
                     ac_pts = map to_ac centerline_blender;
                     cum = cum_dist ac_pts;
                     curvature = compute_curvature (map (\<lambda>p. (fst p, fst (snd p))) centerline_blender)
                 in case compute_speeds DEFAULT_SPEED MIN_CORNER_SPEED curvature of
                      Inl e \<Rightarrow> (Some e, fs1)
                    | Inr speeds \<Rightarrow>
                        (case fl_max speeds of
                           Inl e \<Rightarrow> (Some e, fs1)
                         | Inr max_speed \<Rightarrow>
                             (let gas = map (\<lambda>s. fl_div s max_speed) speeds;
                                  brake = map (\<lambda>g. fl_scale (np_clip01 (fl_rsub 1 g)) (3 / 10)) gas;
                                  lateral = replicate n 0;
                                  f = \<lparr>header = [7, int n, 0, 0],
                                       points = map (\<lambda>i. (ac_pts ! i, cum ! i, int i)) [0..<n],
                                       speed_section =
                                         (int n, map (\<lambda>i. fl_div (speeds ! i) (Fin (36 / 10))) [0..<n]),
                                       gas_section = (int n, map (\<lambda>i. gas ! i) [0..<n]),
                                       brake_section = (int n, map (\<lambda>i. brake ! i) [0..<n]),
                                       lateral_section = (int n, map (\<lambda>i. lateral ! i) [0..<n])\<rparr>
                              in (None, fs1\<lparr>files := (files fs1)(output_path := Some f)\<rparr>))))))"

text \<open>\<open>main\<close> of the racing-line script.\<close>

definition main_ai :: "real \<Rightarrow> real \<Rightarrow> scene \<Rightarrow> filesystem \<Rightarrow> error option \<times> filesystem" where
  "main_ai DEFAULT_SPEED MIN_CORNER_SPEED sc fs =
     (case extract_centerline sc of
        Inl e \<Rightarrow> (Some e, fs)
      | Inr centerline \<Rightarrow> write_ai_file DEFAULT_SPEED MIN_CORNER_SPEED sc centerline OUTPUT_PATH fs)"


section \<open>Example inputs\<close>

text \<open>
  Three triangles that share the edge from vertex 0 to vertex 1, like three pages of a
  book: faces \<open>(0, 1, 2)\<close>, \<open>(0, 1, 3)\<close> and \<open>(0, 1, 4)\<close>. The shared edge (number 6) has
  three faces and is not a boundary edge; the other six edges have one face each.
\<close>

definition three_page_book :: bmesh where
  "three_page_book =
     \<lparr>edges = [\<lparr>e_verts = (2, 0), is_boundary = True\<rparr>,
               \<lparr>e_verts = (0, 3), is_boundary = True\<rparr>,
               \<lparr>e_verts = (3, 1), is_boundary = True\<rparr>,
               \<lparr>e_verts = (1, 2), is_boundary = True\<rparr>,
               \<lparr>e_verts = (0, 4), is_boundary = True\<rparr>,
               \<lparr>e_verts = (4, 1), is_boundary = True\<rparr>,
               \<lparr>e_verts = (0, 1), is_boundary = False\<rparr>],
      link_edges = (\<lambda>v. if v = 0 then [0, 1, 4, 6] else if v = 1 then [2, 3, 5, 6]
                        else if v = 2 then [0, 3] else if v = 3 then [1, 2]
                        else if v = 4 then [4, 5] else []),
      co = (\<lambda>v. if v = 0 then (0, 0, 0) else if v = 1 then (0, 0, 1)
                else if v = 2 then (1, 0, 0) else if v = 3 then (0, 1, 0)
                else (- 1, 0, 0))\<rparr>"

definition book_scene :: scene where
  "book_scene = \<lparr>road = Some (three_page_book, \<lambda>p. p), start_marker = None\<rparr>"

definition empty_fs :: filesystem where
  "empty_fs = \<lparr>dirs = {}, files = (\<lambda>p. None)\<rparr>"

text \<open>
  The two boundary loops of a square ring road that lies west of the origin: the outer
  edge with corners \<open>(-12, -2)\<close> and \<open>(-6, 4)\<close>, the inner edge with corners \<open>(-10, 0)\<close>
  and \<open>(-8, 2)\<close>, both listed counter-clockwise from the south-west corner.
\<close>

definition ring_outer :: "vec3 list" where
  "ring_outer = [(- 12, - 2, 0), (- 6, - 2, 0), (- 6, 4, 0), (- 12, 4, 0)]"

definition ring_inner :: "vec3 list" where
  "ring_inner = [(- 10, 0, 0), (- 8, 0, 0), (- 8, 2, 0), (- 10, 2, 0)]"

text \<open>
  The centerline of a rectangle of 30 by 20 metres, one point every metre, and the
  curvature array \<open>compute_curvature\<close> gives for it: 1 at the four corners and 0 at the
  96 points on the straight sides.
\<close>

definition rect_pts :: "vec2 list" where
  "rect_pts = map (\<lambda>i. (real i, 0)) [0..<30] @ map (\<lambda>i. (30, real i)) [0..<20]
            @ map (\<lambda>i. (30 - real i, 20)) [0..<30] @ map (\<lambda>i. (0, 20 - real i)) [0..<20]"

definition rect_curvature :: "real list" where
  "rect_curvature =
     [1] @ replicate 29 0 @ [1] @ replicate 19 0 @ [1] @ replicate 29 0 @ [1] @ replicate 19 0"

text \<open>
  The two edge vectors \<open>v1\<close> and \<open>v2\<close> of \<open>compute_curvature\<close> at index \<open>i\<close>, the test that
  both have length 1, and the absolute cross product: where both edges have length 1
  the curvature is the cross product, and no square root is left to evaluate.
\<close>

definition edge_before :: "vec2 list \<Rightarrow> nat \<Rightarrow> vec2" where
  "edge_before pts i =
     (let n = length pts; p0 = pts ! ((i + n - 1) mod n); p1 = pts ! i
      in (fst p1 - fst p0, snd p1 - snd p0))"

definition edge_after :: "vec2 list \<Rightarrow> nat \<Rightarrow> vec2" where
  "edge_after pts i =
     (let n = length pts; p1 = pts ! i; p2 = pts ! ((i + 1) mod n)
      in (fst p2 - fst p1, snd p2 - snd p1))"

definition unit_edges :: "vec2 list \<Rightarrow> nat \<Rightarrow> bool" where
  "unit_edges pts i =
     ((fst (edge_before pts i))\<^sup>2 + (snd (edge_before pts i))\<^sup>2 = 1
      \<and> (fst (edge_after pts i))\<^sup>2 + (snd (edge_after pts i))\<^sup>2 = 1)"

definition cross_at :: "vec2 list \<Rightarrow> nat \<Rightarrow> real" where
  "cross_at pts i =
     \<bar>fst (edge_before pts i) * snd (edge_after pts i)
       - snd (edge_before pts i) * fst (edge_after pts i)\<bar>"


section \<open>KN5 writer\<close>

text \<open>
  A run of \<open>f.write(...)\<close> statements: the bytes of each write in order, or the first
  exception raised while their arguments are computed.
\<close>

fun write_all :: "(error + byte list) list \<Rightarrow> error + byte list" where
  "write_all [] = Inr []"
| "write_all (w # ws) =
     (case w of
        Inl e \<Rightarrow> Inl e
      | Inr b \<Rightarrow> (case write_all ws of Inl e \<Rightarrow> Inl e | Inr bs \<Rightarrow> Inr (b @ bs)))"

text \<open>
  \<open>write_string\<close>. The argument is \<open>s.encode('utf-8')\<close>: strings are given by their UTF-8
  bytes throughout.
\<close>

definition write_string :: "byte list \<Rightarrow> error + byte list" where
  "write_string data = write_all [pack_i (int (length data)), Inr data]"

definition magic :: "byte list" where
  "magic = [0x73, 0x63, 0x36, 0x39, 0x36, 0x39]"

definition write_header :: "int \<Rightarrow> error + byte list" where
  "write_header version =
     write_all ([Inr magic, pack_i version] @ (if version > 5 then [pack_i 0] else []))"

definition write_textures :: "(byte list \<times> byte list) list \<Rightarrow> error + byte list" where
  "write_textures textures =
     write_all (pack_i (int (length textures)) #
       concat (map (\<lambda>(name, dds_data).
                 [pack_i 1, write_string name, pack_i (int (length dds_data)), Inr dds_data])
               textures))"

record material =
  mat_name :: "byte list"
  shader :: "byte list"
  properties :: "(byte list \<times> real) list"
  samplers :: "(byte list \<times> int \<times> byte list) list"

definition write_materials :: "f32enc \<Rightarrow> material list \<Rightarrow> int \<Rightarrow> error + byte list" where
  "write_materials f32 materials version =
     write_all (pack_i (int (length materials)) #
       concat (map (\<lambda>mat.
                 [write_string (mat_name mat), write_string (shader mat), Inr [0, 0]]
                 @ (if version > 4 then [pack_i 0] else [])
                 @ [pack_i (int (length (properties mat)))]
                 @ concat (map (\<lambda>(pname, pvalue).
                             [write_string pname, pack_f f32 pvalue, Inr (replicate 36 0)])
                           (properties mat))
                 @ [pack_i (int (length (samplers mat)))]
                 @ concat (map (\<lambda>(sname, slot, tname).
                             [write_string sname, pack_i slot, write_string tname])
                           (samplers mat)))
               materials))"

text \<open>A vertex record: position, normal, texture coordinate, tangent.\<close>

type_synonym vertex = "vec3 \<times> vec3 \<times> vec2 \<times> vec3"

definition pack_3f :: "f32enc \<Rightarrow> vec3 \<Rightarrow> error + byte list" where
  "pack_3f f32 v = (case v of (x, y, z) \<Rightarrow> write_all [pack_f f32 x, pack_f f32 y, pack_f f32 z])"

definition pack_2f :: "f32enc \<Rightarrow> vec2 \<Rightarrow> error + byte list" where
  "pack_2f f32 v = (case v of (x, y) \<Rightarrow> write_all [pack_f f32 x, pack_f f32 y])"

text \<open>\<open>write_dummy_node\<close>; \<open>matrix[row][col]\<close> raises \<open>IndexError\<close> outside the matrix.\<close>

definition write_dummy_node :: "f32enc \<Rightarrow> byte list \<Rightarrow> real list list \<Rightarrow> int \<Rightarrow> error + byte list" where
  "write_dummy_node f32 name matrix children_count =
     write_all ([pack_i 1, write_string name, pack_i children_count, pack_B 1]
       @ map (\<lambda>(row, col).
                if row < length matrix \<and> col < length (matrix ! row)
                then pack_f f32 (matrix ! row ! col) else Inl IndexError)
             (concat (map (\<lambda>row. map (\<lambda>col. (row, col)) [0..<4]) [0..<4])))"

text \<open>\<open>make_box_mesh\<close>: the loop over \<open>faces_data\<close>, with the lists built so far.\<close>

definition faces_data :: "real \<Rightarrow> (vec3 \<times> vec3 \<times> vec3 \<times> vec3 \<times> vec3 \<times> vec3) list" where
  "faces_data h =
     [((0, 1, 0), (1, 0, 0), (- h, h, - h), (h, h, - h), (h, h, h), (- h, h, h)),
      ((0, - 1, 0), (1, 0, 0), (- h, - h, h), (h, - h, h), (h, - h, - h), (- h, - h, - h)),
      ((1, 0, 0), (0, 0, 1), (h, - h, - h), (h, - h, h), (h, h, h), (h, h, - h)),
      ((- 1, 0, 0), (0, 0, - 1), (- h, - h, h), (- h, - h, - h), (- h, h, - h), (- h, h, h)),
      ((0, 0, 1), (1, 0, 0), (- h, - h, h), (h, - h, h), (h, h, h), (- h, h, h)),
      ((0, 0, - 1), (- 1, 0, 0), (h, - h, - h), (- h, - h, - h), (- h, h, - h), (h, h, - h))]"

definition box_face ::
    "vertex list \<times> int list \<Rightarrow> vec3 \<times> vec3 \<times> vec3 \<times> vec3 \<times> vec3 \<times> vec3 \<Rightarrow> vertex list \<times> int list" where
  "box_face acc face =
     (case acc of (verts, indices) \<Rightarrow>
      case face of (normal, tangent, v0, v1, v2, v3) \<Rightarrow>
        (let base = int (length verts)
         in (verts @ map (\<lambda>(v, uv). (v, normal, uv, tangent))
                       (zip [v0, v1, v2, v3] [(0, 0), (1, 0), (1, 1), (0, 1)]),
             indices @ [base, base + 1, base + 2, base, base + 2, base + 3])))"

definition make_box_mesh :: "real \<Rightarrow> vertex list \<times> int list" where
  "make_box_mesh half = foldl box_face ([], []) (faces_data half)"

text \<open>
  \<open>compute_bounding_sphere\<close>: the centre of the axis-aligned box of the positions and
  the largest distance from it, found by the loop \<open>if d > radius: radius = d\<close>.
\<close>

definition min_list_of :: "real list \<Rightarrow> real" where
  "min_list_of xs = foldl min (hd xs) (tl xs)"

definition max_list_of :: "real list \<Rightarrow> real" where
  "max_list_of xs = foldl max (hd xs) (tl xs)"

definition compute_bounding_sphere :: "vertex list \<Rightarrow> real \<times> real \<times> real \<times> real" where
  "compute_bounding_sphere vertices =
     (if vertices = [] then (0, 0, 0, 0)
      else
        (let xs = map (\<lambda>v. fst (fst v)) vertices;
             ys = map (\<lambda>v. fst (snd (fst v))) vertices;
             zs = map (\<lambda>v. snd (snd (fst v))) vertices;
             cx = (min_list_of xs + max_list_of xs) / 2;
             cy = (min_list_of ys + max_list_of ys) / 2;
             cz = (min_list_of zs + max_list_of zs) / 2;
             radius = foldl (\<lambda>radius v.
                         (let d = norm3 (vsub (fst v) (cx, cy, cz))
                          in if d > radius then d else radius)) 0 vertices
         in (cx, cy, cz, radius)))"

text \<open>
  The index loop of \<open>write_mesh_node\<close>, three entries at a time: \<open>indices[i + 1]\<close> and
  \<open>indices[i + 2]\<close> raise \<open>IndexError\<close> when the list ends inside a triple, and format
  \<open>H\<close> takes \<open>0..65535\<close> only.
\<close>

fun write_indices :: "int list \<Rightarrow> error + byte list" where
  "write_indices [] = Inr []"
| "write_indices [a] = write_all [pack_H a, Inl IndexError]"
| "write_indices [a, b] = write_all [pack_H a, pack_H b, Inl IndexError]"
| "write_indices (a # b # c # rest) = write_all [pack_H a, pack_H b, pack_H c, write_indices rest]"

definition write_vertex :: "f32enc \<Rightarrow> vertex \<Rightarrow> error + byte list" where
  "write_vertex f32 v =
     (case v of (pos, normal, uv, tangent) \<Rightarrow>
        write_all [pack_3f f32 pos, pack_3f f32 normal, pack_2f f32 uv, pack_3f f32 tangent])"

definition write_mesh_node ::
    "f32enc \<Rightarrow> byte list \<Rightarrow> vertex list \<Rightarrow> int list \<Rightarrow> int \<Rightarrow> error + byte list" where
  "write_mesh_node f32 name vertices indices material_id =
     (case compute_bounding_sphere vertices of (cx, cy, cz, radius) \<Rightarrow>
        write_all
          [pack_i 2, write_string name, pack_i 0, pack_B 1,
           Inr [1, 1, 0],
           pack_i (int (length vertices)),
           write_all (map (write_vertex f32) vertices),
           pack_i (int (length indices)),
           write_indices indices,
           pack_i material_id,
           pack_i 0, pack_f f32 0, pack_f f32 0,
           pack_3f f32 (cx, cy, cz),
           pack_f f32 radius,
           pack_B 1])"


section \<open>KN5 exporter: mesh data and the node tree\<close>

text \<open>
  What the exporter reads of a Blender mesh object. \<open>polygons\<close> holds, for each polygon
  of the triangulated mesh, the vertex record of each of its corners as
  \<open>get_mesh_data\<close> computes it inside its loop (world transform, axis swap and rounding
  to six decimals applied). \<open>obj_material\<close> is the name of the first material, if any.
\<close>

record mesh_object =
  obj_name :: "byte list"
  obj_material :: "byte list option"
  polygons :: "vertex list list"

text \<open>An empty: its name and its \<open>matrix_world\<close>, read as \<open>m[r][c]\<close>.\<close>

record empty_object =
  empty_name :: "byte list"
  matrix_world :: "nat \<Rightarrow> nat \<Rightarrow> real"

text \<open>The line printed when a mesh has more than 65535 vertices: its name and the count.\<close>

datatype warning = TooManyVerts "byte list" nat

text \<open>
  The body of the corner loop of \<open>get_mesh_data\<close>: \<open>vert_map\<close> maps the key
  \<open>(pos, normal, uv)\<close> to the index of the vertex that has it.
\<close>

type_synonym vert_key = "vec3 \<times> vec3 \<times> vec2"

definition add_corner ::
    "vertex list \<times> int list \<times> (vert_key \<Rightarrow> int option) \<Rightarrow> vertex
       \<Rightarrow> vertex list \<times> int list \<times> (vert_key \<Rightarrow> int option)" where
  "add_corner st corner =
     (case st of (vertices, indices, vert_map) \<Rightarrow>
      case corner of (pos, normal, uv, tangent) \<Rightarrow>
        (case vert_map (pos, normal, uv) of
           None \<Rightarrow>
             (vertices @ [(pos, normal, uv, tangent)],
              indices @ [int (length vertices)],
              vert_map((pos, normal, uv) \<mapsto> int (length vertices)))
         | Some i \<Rightarrow> (vertices, indices @ [i], vert_map)))"

definition get_mesh_data :: "mesh_object \<Rightarrow> vertex list \<times> int list \<times> warning list" where
  "get_mesh_data obj =
     (case foldl add_corner ([], [], Map.empty) (concat (polygons obj)) of
        (vertices, indices, vert_map) \<Rightarrow>
          (vertices, indices,
           if length vertices > 65535 then [TooManyVerts (obj_name obj) (length vertices)] else []))"

definition get_material_id :: "mesh_object \<Rightarrow> (byte list \<Rightarrow> int option) \<Rightarrow> int" where
  "get_material_id obj mat_name_to_id =
     (case obj_material obj of
        None \<Rightarrow> 0
      | Some first_name \<Rightarrow> (case mat_name_to_id first_name of Some i \<Rightarrow> i | None \<Rightarrow> 0))"

definition identity_matrix :: "real list list" where
  "identity_matrix = [[1, 0, 0, 0], [0, 1, 0, 0], [0, 0, 1, 0], [0, 0, 0, 1]]"

definition obj_to_matrix :: "empty_object \<Rightarrow> real list list" where
  "obj_to_matrix obj =
     (let raw = matrix_world obj;
          ct = [[raw 0 0, raw 0 1, raw 0 2, raw 0 3],
                [raw 2 0, raw 2 1, raw 2 2, raw 2 3],
                [- raw 1 0, - raw 1 1, - raw 1 2, - raw 1 3],
                [raw 3 0, raw 3 1, raw 3 2, raw 3 3]]
      in [[ct ! 0 ! 0, ct ! 1 ! 0, ct ! 2 ! 0, ct ! 3 ! 0],
          [ct ! 0 ! 1, ct ! 1 ! 1, ct ! 2 ! 1, ct ! 3 ! 1],
          [ct ! 0 ! 2, ct ! 1 ! 2, ct ! 2 ! 2, ct ! 3 ! 2],
          [ct ! 0 ! 3, ct ! 1 ! 3, ct ! 2 ! 3, ct ! 3 ! 3]])"

text \<open>
  A node as \<open>main\<close> writes it: the arguments of one call of \<open>write_dummy_node\<close> or of
  \<open>write_mesh_node\<close>.
\<close>

datatype node =
    DummyNode "byte list" "real list list" int
  | MeshNode "byte list" "vertex list" "int list" int

fun write_node :: "f32enc \<Rightarrow> node \<Rightarrow> error + byte list" where
  "write_node f32 (DummyNode name matrix children_count) =
     write_dummy_node f32 name matrix children_count"
| "write_node f32 (MeshNode name vertices indices material_id) =
     write_mesh_node f32 name vertices indices material_id"

text \<open>The child count a node declares: \<open>write_mesh_node\<close> always writes 0.\<close>

fun declared_children :: "node \<Rightarrow> int" where
  "declared_children (DummyNode name matrix children_count) = children_count"
| "declared_children (MeshNode name vertices indices material_id) = 0"

definition root_name :: "byte list" where
  "root_name = [0x70, 0x69, 0x73, 0x74, 0x61, 0x5F, 0x63, 0x61, 0x75, 0x64, 0x69, 0x6E, 0x61]"

text \<open>The nodes of the three write steps of \<open>main\<close>: the root, a mesh, an empty.\<close>

definition root_node :: "mesh_object list \<Rightarrow> empty_object list \<Rightarrow> node" where
  "root_node mesh_objects empty_objects =
     DummyNode root_name identity_matrix (int (length mesh_objects + length empty_objects))"

definition mesh_node :: "(byte list \<Rightarrow> int option) \<Rightarrow> mesh_object \<Rightarrow> node" where
  "mesh_node mat_name_to_id obj =
     (case get_mesh_data obj of (verts, indices, warnings) \<Rightarrow>
        MeshNode (obj_name obj) verts indices (get_material_id obj mat_name_to_id))"

definition marker_nodes :: "empty_object \<Rightarrow> node list" where
  "marker_nodes obj =
     (case make_box_mesh (1 / 4) of (box_verts, box_indices) \<Rightarrow>
        [DummyNode (empty_name obj) (obj_to_matrix obj) 1,
         MeshNode (empty_name obj) box_verts box_indices 0])"

text \<open>
  The loop \<open>for obj in mesh_objects\<close>: the warnings printed so far, and the bytes written
  or the exception that stopped the loop.
\<close>

fun write_meshes ::
    "f32enc \<Rightarrow> (byte list \<Rightarrow> int option) \<Rightarrow> mesh_object list \<Rightarrow> warning list \<times> (error + byte list)" where
  "write_meshes f32 mat_name_to_id [] = ([], Inr [])"
| "write_meshes f32 mat_name_to_id (obj # objs) =
     (let warnings = snd (snd (get_mesh_data obj))
      in case write_node f32 (mesh_node mat_name_to_id obj) of
           Inl e \<Rightarrow> (warnings, Inl e)
         | Inr b \<Rightarrow>
             (case write_meshes f32 mat_name_to_id objs of
                (ws, Inl e) \<Rightarrow> (warnings @ ws, Inl e)
              | (ws, Inr bs) \<Rightarrow> (warnings @ ws, Inr (b @ bs))))"

text \<open>
  \<open>main\<close> of the exporter from the \<open>with open(KN5_PATH, 'wb')\<close> block on. Its inputs are
  what the steps before compute: the two object lists sorted by name and the result of
  \<open>build_material_map\<close>. The result is the warnings printed, and the content of the
  finished file or the exception that ended the export.
\<close>

definition main_kn5 ::
    "f32enc \<Rightarrow> mesh_object list \<Rightarrow> empty_object list \<Rightarrow> material list
       \<Rightarrow> (byte list \<Rightarrow> int option) \<Rightarrow> (byte list \<times> byte list) list
       \<Rightarrow> warning list \<times> (error + byte list)" where
  "main_kn5 f32 mesh_objects empty_objects materials_list mat_name_to_id textures =
     (case write_all [write_header 6, write_textures textures,
                      write_materials f32 materials_list 6,
                      write_node f32 (root_node mesh_objects empty_objects)] of
        Inl e \<Rightarrow> ([], Inl e)
      | Inr head \<Rightarrow>
          (case write_meshes f32 mat_name_to_id mesh_objects of
             (ws, Inl e) \<Rightarrow> (ws, Inl e)
           | (ws, Inr mesh_bytes) \<Rightarrow>
               (case write_all (map (write_node f32) (concat (map marker_nodes empty_objects))) of
                  Inl e \<Rightarrow> (ws, Inl e)
                | Inr marker_bytes \<Rightarrow> (ws, Inr (head @ mesh_bytes @ marker_bytes)))))"






section \<open>KN5 reader: the node parser of the viewer\<close>

text \<open>
  A mesh as \<open>parse_node\<close> appends it to \<open>meshes\<close>. The \<open>float32\<close> arrays hold the 32-bit
  patterns read; \<open>np.frombuffer(..., dtype=np.uint16)\<close> reads in the byte order of the
  machine, taken to be little-endian.
\<close>

record kn5_mesh =
  mesh_name :: "byte list"
  mesh_verts :: "(32 word \<times> 32 word \<times> 32 word) list"
  mesh_normals :: "(32 word \<times> 32 word \<times> 32 word) list"
  mesh_uvs :: "(32 word \<times> 32 word) list"
  mesh_indices :: "16 word list"
  mesh_mat_id :: int
  mesh_tri_count :: int

text \<open>\<open>struct.unpack('B', b)[0]\<close>: the buffer must hold exactly one byte.\<close>

definition unpack_B :: "byte list \<Rightarrow> error + int" where
  "unpack_B b = (if length b = 1 then Inr (uint (b ! 0)) else Inl StructError)"

definition f32_at :: "byte list \<Rightarrow> nat \<Rightarrow> 32 word" where
  "f32_at raw off = from_le32 (take 4 (drop off raw))"

text \<open>
  The body of the vertex loop at index \<open>i\<close>: three \<open>struct.unpack_from\<close> calls, the last
  of which needs the bytes up to \<open>off + 32\<close>; the tangent is not read.
\<close>

definition read_vertex ::
    "byte list \<Rightarrow> nat \<Rightarrow> error + ((32 word \<times> 32 word \<times> 32 word) \<times> (32 word \<times> 32 word \<times> 32 word)
        \<times> (32 word \<times> 32 word))" where
  "read_vertex raw i =
     (let off = i * 44
      in if off + 32 \<le> length raw
         then Inr ((f32_at raw off, f32_at raw (off + 4), f32_at raw (off + 8)),
                   (f32_at raw (off + 12), f32_at raw (off + 16), f32_at raw (off + 20)),
                   (f32_at raw (off + 24), f32_at raw (off + 28)))
         else Inl StructError)"

text \<open>The results of a loop body run over a list, or the first exception.\<close>

fun collect :: "(error + 'a) list \<Rightarrow> error + 'a list" where
  "collect [] = Inr []"
| "collect (r # rs) =
     (case r of
        Inl e \<Rightarrow> Inl e
      | Inr x \<Rightarrow> (case collect rs of Inl e \<Rightarrow> Inl e | Inr xs \<Rightarrow> Inr (x # xs)))"

text \<open>The \<open>uint16\<close> array over a buffer of even length.\<close>

fun u16_array :: "byte list \<Rightarrow> 16 word list" where
  "u16_array (a # b # rest) = from_le16 [a, b] # u16_array rest"
| "u16_array rest = []"

text \<open>
  The six reads after the material id: layer, \<open>lodIn\<close>, \<open>lodOut\<close>, the bounding sphere
  and \<open>isRenderable\<close>, none of them looked at.
\<close>

definition skip_mesh_trailer :: "byte list \<Rightarrow> byte list" where
  "skip_mesh_trailer bs =
     (let b1 = snd (read 4 bs);
          b2 = snd (read 4 b1);
          b3 = snd (read 4 b2);
          b4 = snd (read 12 b3);
          b5 = snd (read 4 b4)
      in snd (read 1 b5))"

text \<open>
  The branch \<open>node_type == 2\<close> of \<open>parse_node\<close> up to \<open>meshes.append\<close>: the mesh read and
  the stream after it. \<open>np.zeros\<close> raises \<open>ValueError\<close> on a negative count,
  \<open>np.frombuffer\<close> on a buffer of odd length.
\<close>

definition parse_mesh_body :: "byte list \<Rightarrow> byte list \<Rightarrow> error + (kn5_mesh \<times> byte list)" where
  "parse_mesh_body name bs0 =
     (let bs1 = snd (read 3 bs0)
      in case unpack_i (fst (read 4 bs1)) of
           Inl e \<Rightarrow> Inl e
         | Inr vert_count \<Rightarrow>
             (let raw = fst (read (vert_count * 44) (snd (read 4 bs1)));
                  bs2 = snd (read (vert_count * 44) (snd (read 4 bs1)))
              in if vert_count < 0 then Inl ValueError
                 else
                   (case collect (map (read_vertex raw) [0..<nat vert_count]) of
                      Inl e \<Rightarrow> Inl e
                    | Inr vs \<Rightarrow>
                        (case unpack_i (fst (read 4 bs2)) of
                           Inl e \<Rightarrow> Inl e
                         | Inr idx_count \<Rightarrow>
                             (let idx_raw = fst (read (idx_count * 2) (snd (read 4 bs2)));
                                  bs3 = snd (read (idx_count * 2) (snd (read 4 bs2)))
                              in if odd (length idx_raw) then Inl ValueError
                                 else
                                   (case unpack_i (fst (read 4 bs3)) of
                                      Inl e \<Rightarrow> Inl e
                                    | Inr mat_id \<Rightarrow>
                                        Inr (\<lparr>mesh_name = name,
                                               mesh_verts = map fst vs,
                                               mesh_normals = map (\<lambda>v. fst (snd v)) vs,
                                               mesh_uvs = map (\<lambda>v. snd (snd v)) vs,
                                               mesh_indices = u16_array idx_raw,
                                               mesh_mat_id = mat_id,
                                               mesh_tri_count = idx_count div 3\<rparr>,
                                             skip_mesh_trailer (snd (read 4 bs3)))))))))"

text \<open>\<open>for _ in range(n): body()\<close> on a state, stopping at the first exception.\<close>

fun repeat :: "nat \<Rightarrow> ('s \<Rightarrow> error + 's) \<Rightarrow> 's \<Rightarrow> error + 's" where
  "repeat 0 body st = Inr st"
| "repeat (Suc n) body st = (case body st of Inl e \<Rightarrow> Inl e | Inr st' \<Rightarrow> repeat n body st')"

text \<open>
  \<open>parse_node\<close>, on the rest of the stream and the list \<open>meshes\<close>. The first argument is the
  number of nested calls the interpreter still allows; Python raises \<open>RecursionError\<close>
  when its recursion limit is reached. A node of a type other than 1 and 2 reads
  nothing more.
\<close>

primrec parse_node :: "nat \<Rightarrow> byte list \<times> kn5_mesh list \<Rightarrow> error + (byte list \<times> kn5_mesh list)" where
  "parse_node 0 = (\<lambda>st. Inl RecursionError)"
| "parse_node (Suc depth) = (\<lambda>st.
     case st of (bs, meshes) \<Rightarrow>
     (case unpack_i (fst (read 4 bs)) of
        Inl e \<Rightarrow> Inl e
      | Inr node_type \<Rightarrow>
          (case read_string (snd (read 4 bs)) of
             Inl e \<Rightarrow> Inl e
           | Inr (name, bs1) \<Rightarrow>
               (case unpack_i (fst (read 4 bs1)) of
                  Inl e \<Rightarrow> Inl e
                | Inr num_children \<Rightarrow>
                    (case unpack_B (fst (read 1 (snd (read 4 bs1)))) of
                       Inl e \<Rightarrow> Inl e
                     | Inr node_flag \<Rightarrow>
                         (let bs2 = snd (read 1 (snd (read 4 bs1)))
                          in if node_type = 1 then
                               repeat (nat num_children) (parse_node depth)
                                 (snd (read 64 bs2), meshes)
                             else if node_type = 2 then
                               (case parse_mesh_body name bs2 of
                                  Inl e \<Rightarrow> Inl e
                                | Inr (mesh, bs3) \<Rightarrow>
                                    repeat (nat num_children) (parse_node depth)
                                      (bs3, meshes @ [mesh]))
                             else Inr (bs2, meshes)))))))"

text \<open>The 32-bit pattern \<open>struct.pack('<f', x)\<close> writes for \<open>x\<close>, where it does not raise.\<close>

definition f32_bits :: "f32enc \<Rightarrow> real \<Rightarrow> 32 word" where
  "f32_bits f32 x = (case f32 x of Some w \<Rightarrow> w | None \<Rightarrow> 0)"

definition f32_bits3 :: "f32enc \<Rightarrow> vec3 \<Rightarrow> 32 word \<times> 32 word \<times> 32 word" where
  "f32_bits3 f32 v = (case v of (x, y, z) \<Rightarrow> (f32_bits f32 x, f32_bits f32 y, f32_bits f32 z))"

definition f32_bits2 :: "f32enc \<Rightarrow> vec2 \<Rightarrow> 32 word \<times> 32 word" where
  "f32_bits2 f32 v = (case v of (x, y) \<Rightarrow> (f32_bits f32 x, f32_bits f32 y))"

text \<open>
  The mesh the reader should recover from a mesh node written with these arguments:
  the position, normal and texture coordinate of every vertex as the 32-bit patterns
  written, the indices as 16-bit values, the material id, and the triangle count.
\<close>

definition mesh_as_written ::
    "f32enc \<Rightarrow> byte list \<Rightarrow> vertex list \<Rightarrow> int list \<Rightarrow> int \<Rightarrow> kn5_mesh" where
  "mesh_as_written f32 name vertices indices material_id =
     \<lparr>mesh_name = name,
      mesh_verts = map (\<lambda>v. f32_bits3 f32 (fst v)) vertices,
      mesh_normals = map (\<lambda>v. f32_bits3 f32 (fst (snd v))) vertices,
      mesh_uvs = map (\<lambda>v. f32_bits2 f32 (fst (snd (snd v)))) vertices,
      mesh_indices = map word_of_int indices,
      mesh_mat_id = material_id,
      mesh_tri_count = int (length indices) div 3\<rparr>"

text \<open>
  An encoder for the examples: it is total and maps 0 to the pattern of \<open>0.0\<close>; on other
  values it is a 16.16 fixed-point stand-in for the IEEE rounding.
\<close>

definition f32_example :: f32enc where
  "f32_example x = Some (word_of_int \<lfloor>x * 65536\<rfloor>)"


section \<open>The corner loop of the exporter: invariant and example\<close>

text \<open>The deduplication key of a vertex record.\<close>

definition corner_key :: "vertex \<Rightarrow> vert_key" where
  "corner_key c = (case c of (pos, normal, uv, tangent) \<Rightarrow> (pos, normal, uv))"

text \<open>
  The invariant of the corner loop of \<open>get_mesh_data\<close>: every index in \<open>vert_map\<close> and
  in \<open>indices\<close> names a vertex, and every vertex is named by some index.
\<close>

definition corner_inv :: "vertex list \<times> int list \<times> (vert_key \<Rightarrow> int option) \<Rightarrow> bool" where
  "corner_inv st =
     (case st of (vertices, indices, vert_map) \<Rightarrow>
        (\<forall>k i. vert_map k = Some i \<longrightarrow> 0 \<le> i \<and> i < int (length vertices))
        \<and> (\<forall>i\<in>set indices. 0 \<le> i \<and> i < int (length vertices))
        \<and> (\<forall>j < length vertices. int j \<in> set indices))"


text \<open>
  A mesh of \<open>n\<close> triangles whose \<open>3 * n\<close> corners all differ in position, so that no two
  corners share a key.
\<close>

definition far_corner :: "nat \<Rightarrow> vertex" where
  "far_corner k = ((real k, 0, 0), (0, 1, 0), (0, 0), (1, 0, 0))"

definition many_corners_mesh :: "nat \<Rightarrow> mesh_object" where
  "many_corners_mesh n =
     \<lparr>obj_name = [0x62, 0x69, 0x67], obj_material = None,
      polygons = map (\<lambda>t. [far_corner (3 * t), far_corner (3 * t + 1), far_corner (3 * t + 2)])
                     [0..<n]\<rparr>"




section \<open>Round trips of the little-endian encodings\<close>

lemma length_le32 [simp]: "length (le32 w) = 4"
  by (simp add: le32_def)

lemma length_le16 [simp]: "length (le16 w) = 2"
  by (simp add: le16_def)

lemma from_le32_le32 [simp]: "from_le32 (le32 w) = w"
proof (rule bit_word_eqI)
  fix n :: nat
  assume n: "n < LENGTH(32)"
  consider "n < 8" | m where "n = 8 + m" "m < 8" | m where "n = 16 + m" "m < 8"
    | m where "n = 24 + m" "m < 8"
  proof -
    have "n < 8 \<or> (n = 8 + (n - 8) \<and> n - 8 < 8) \<or> (n = 16 + (n - 16) \<and> n - 16 < 8)
          \<or> (n = 24 + (n - 24) \<and> n - 24 < 8)"
      using n by simp linarith
    then show ?thesis using that by blast
  qed
  then show "bit (from_le32 (le32 w)) n = bit w n"
    unfolding from_le32_def le32_def
    by cases (auto simp add: bit_simps)
qed

lemma from_le16_le16 [simp]: "from_le16 (le16 w) = w"
proof (rule bit_word_eqI)
  fix n :: nat
  assume n: "n < LENGTH(16)"
  consider "n < 8" | m where "n = 8 + m" "m < 8"
  proof -
    have "n < 8 \<or> (n = 8 + (n - 8) \<and> n - 8 < 8)"
      using n by simp linarith
    then show ?thesis using that by blast
  qed
  then show "bit (from_le16 (le16 w)) n = bit w n"
    unfolding from_le16_def le16_def
    by cases (auto simp add: bit_simps)
qed

lemma sint_word_of_int_32:
  "- (2 ^ 31) \<le> v \<Longrightarrow> v < 2 ^ 31 \<Longrightarrow> sint (word_of_int v :: 32 word) = v"
  by (simp add: signed_of_int signed_take_bit_int_eq_self)

lemma read_append [simp]: "read (int (length a)) (a @ b) = (a, b)"
  by (simp add: read_def)

lemma read_4_le32 [simp]: "read 4 (le32 w @ rest) = (le32 w, rest)"
  using read_append [of "le32 w" rest] by simp

lemma unpack_i_le32 [simp]: "unpack_i (le32 w) = Inr (sint w)"
  by (simp add: unpack_i_def)

lemma read_string_declared:
  "read_string (le32 w @ rest) =
     (if sint w < 0 \<or> 10000 < sint w then Inl (BadStringLength (sint w))
      else Inr (take (nat (sint w)) rest, drop (nat (sint w)) rest))"
  by (simp add: read_string_def read_def)

section \<open>The string-reading primitive on good and bad declared lengths\<close>




section \<open>Boundary-loop chaining drops short walks\<close>

lemma chain_from_walks:
  "chain_from bm wm ss visited loops =
     (case walks_from bm wm ss visited of
        Inl e \<Rightarrow> Inl e
      | Inr ws \<Rightarrow> Inr (loops @ filter (\<lambda>l. 2 < length l) ws))"
  by (induction ss arbitrary: visited loops) (auto split: sum.splits prod.splits)

text \<open>
  C10. The loops returned by \<open>_chain_boundary_loops\<close> are exactly the walks that recorded
  more than two vertices, in the order they were made: a walk of fewer than three
  vertices is dropped without any error, so it is not in the list whose length
  \<open>extract_centerline\<close> compares with 2.
\<close>

theorem short_walks_discarded:
  "chain_boundary_loops bm wm =
     (case chained_walks bm wm of
        Inl e \<Rightarrow> Inl e
      | Inr ws \<Rightarrow> Inr (filter (\<lambda>l. 2 < length l) ws))"
  by (auto simp add: chain_boundary_loops_def chained_walks_def chain_from_walks split: sum.splits)

lemma book_walks:
  "chained_walks three_page_book (\<lambda>p. p) =
     Inr [[(1, 0, 0), (0, 0, 0), (0, 1, 0), (0, 0, 1)], [(0, 0, 0), (- 1, 0, 0)]]"
  by code_simp

theorem short_walks_discarded_witness:
  "chained_walks three_page_book (\<lambda>p. p) =
     Inr [[(1, 0, 0), (0, 0, 0), (0, 1, 0), (0, 0, 1)], [(0, 0, 0), (- 1, 0, 0)]]
   \<and> chain_boundary_loops three_page_book (\<lambda>p. p) =
     Inr [[(1, 0, 0), (0, 0, 0), (0, 1, 0), (0, 0, 1)]]"
  using short_walks_discarded [of three_page_book "\<lambda>p. p"] book_walks by simp

section \<open>A loop count other than two stops the racing-line stage\<close>

lemma book_loops:
  "chain_boundary_loops three_page_book (\<lambda>p. p) =
     Inr [[(1, 0, 0), (0, 0, 0), (0, 1, 0), (0, 0, 1)]]"
  by code_simp

text \<open>
  C4. When the chaining of the road mesh returns a number of loops other than 2, \<open>main\<close>
  exits with status 1 after the error line that reports that number, and the file
  system is as it was: no directory has been made and no file written.
\<close>

theorem wrong_loop_count_no_file:
  assumes "road sc = Some (bm, world_mat)"
    and "chain_boundary_loops bm world_mat = Inr loops"
    and "length loops \<noteq> 2"
  shows "main_ai DEFAULT_SPEED MIN_CORNER_SPEED sc fs
           = (Some (SystemExit 1 (ExpectedTwoLoops (length loops))), fs)"
  using assms by (simp add: main_ai_def extract_centerline_def)

theorem wrong_loop_count_no_file_witness:
  "main_ai 80 40 book_scene empty_fs = (Some (SystemExit 1 (ExpectedTwoLoops 1)), empty_fs)"
  using wrong_loop_count_no_file [of book_scene three_page_book "\<lambda>p. p"
          "[[(1, 0, 0), (0, 0, 0), (0, 1, 0), (0, 0, 1)]]" 80 40 empty_fs] book_loops
  by (simp add: book_scene_def)

section \<open>Direction of the centerline\<close>

lemma signed_area_snoc:
  "signed_area (ps @ [p, q]) = signed_area (ps @ [p]) + (fst p * fst (snd q) - fst q * fst (snd p))"
  by (induction ps rule: signed_area.induct) simp_all

lemma signed_area_rev: "signed_area (rev ps) = - signed_area ps"
  by (induction ps rule: signed_area.induct) (simp_all add: signed_area_snoc)

text \<open>
  What the direction step does achieve: the sum it computes, which has no term for the
  edge from the last point back to the first, is never positive on the result.
\<close>

lemma centerline_open_sum_nonpositive:
  assumes "centerline_of loop_a loop_b = Inr centerline"
  shows "signed_area centerline \<le> 0"
  using assms
  by (auto simp add: centerline_of_def Let_def signed_area_rev split: if_splits sum.splits)

text \<open>
  C2 fails on the code. For the square ring road west of the origin the extractor
  returns the midpoints in their counter-clockwise order: the sum it tests is \<open>-12\<close>
  because the closing edge is left out, while the signed area of the closed polygon
  through the returned points is \<open>16\<close>, which is positive.
\<close>

theorem ring_centerline_counter_clockwise:
  "centerline_of ring_outer ring_inner
     = Inr [(- 11, - 1, 0), (- 7, - 1, 0), (- 7, 3, 0), (- 11, 3, 0)]
   \<and> signed_area [(- 11, - 1, 0), (- 7, - 1, 0), (- 7, 3, 0), (- 11, 3, 0)] = - 12
   \<and> polygon_area [(- 11, - 1, 0), (- 7, - 1, 0), (- 7, 3, 0), (- 11, 3, 0)] = 16"
  by (simp add: centerline_of_def ring_outer_def ring_inner_def align_start_def argmin_def
        dist2_def midpoint_def polygon_area_def Let_def)

section \<open>Speeds before smoothing\<close>

lemma clip_div_range:
  assumes "d \<noteq> 0"
  shows "\<exists>t. np_clip01 (np_div c d) = Fin t \<and> 0 \<le> t \<and> t \<le> 1"
  using assms by (simp add: np_div_def)

lemma speed_between:
  fixes lo hi t :: real
  assumes "lo \<le> hi" and "0 \<le> t" and "t \<le> 1"
  shows "lo \<le> hi - t * (hi - lo) \<and> hi - t * (hi - lo) \<le> hi"
proof -
  have a: "0 \<le> t * (hi - lo)" by (rule mult_nonneg_nonneg) (use assms in simp_all)
  have "t * (hi - lo) \<le> 1 * (hi - lo)"
    by (rule mult_right_mono) (use assms in simp_all)
  then show ?thesis using a by simp
qed

text \<open>
  Where the divisor is not zero the bounds hold: with \<open>MIN_CORNER_SPEED \<le> DEFAULT_SPEED\<close>,
  every speed before smoothing is a number between the two.
\<close>

lemma raw_speeds_bounded:
  assumes "MIN_CORNER_SPEED \<le> DEFAULT_SPEED"
    and "raw_speeds DEFAULT_SPEED MIN_CORNER_SPEED curvature = Inr speeds"
    and "Max (set curvature) > 0 \<longrightarrow> percentile95 curvature \<noteq> 0"
    and "s \<in> set speeds"
  shows "\<exists>v. s = Fin v \<and> MIN_CORNER_SPEED \<le> v \<and> v \<le> DEFAULT_SPEED"
proof -
  define d where "d = (if Max (set curvature) > 0 then percentile95 curvature else 1)"
  have d: "d \<noteq> 0" using assms(3) by (simp add: d_def)
  from assms(2,4) obtain c where
    s: "s = fl_rsub DEFAULT_SPEED (fl_scale (np_clip01 (np_div c d)) (DEFAULT_SPEED - MIN_CORNER_SPEED))"
    by (auto simp add: raw_speeds_def Let_def d_def split: if_splits)
  from clip_div_range [OF d, of c] obtain t where
    t: "np_clip01 (np_div c d) = Fin t" "0 \<le> t" "t \<le> 1" by blast
  show ?thesis
    using speed_between [OF assms(1) t(2) t(3)] by (simp add: s t(1))
qed

lemma curvature_at_unit_edges:
  "unit_edges pts i \<Longrightarrow> curvature_at pts i = cross_at pts i"
  by (simp add: unit_edges_def curvature_at_def cross_at_def edge_before_def edge_after_def
        norm2_def Let_def)

lemma compute_curvature_unit_edges:
  assumes "list_all (unit_edges pts) [0..<length pts]"
  shows "compute_curvature pts = map (cross_at pts) [0..<length pts]"
  using assms by (simp add: compute_curvature_def list_all_iff curvature_at_unit_edges)

lemma rect_unit: "list_all (unit_edges rect_pts) [0..<length rect_pts]"
  by code_simp

lemma rect_cross: "map (cross_at rect_pts) [0..<length rect_pts] = rect_curvature"
  by code_simp

lemma rect_raw_speeds:
  "raw_speeds 80 40 rect_curvature
     = Inr ([Fin 40] @ replicate 29 NaN @ [Fin 40] @ replicate 19 NaN
            @ [Fin 40] @ replicate 29 NaN @ [Fin 40] @ replicate 19 NaN)"
  by code_simp

text \<open>
  C3 fails on the code. The guard of \<open>compute_speeds\<close> tests the maximum of the curvature
  but the divisor is its 95th percentile. On the rectangle of 100 points the curvature
  is 1 at the four corners and 0 elsewhere: the maximum is positive and the percentile
  is 0. With the speeds 80 and 40, the speed before smoothing is 40 at the corners and
  NaN (\<open>0 / 0\<close>) at the 96 points of the straight sides, and NaN lies in no interval.
\<close>

theorem straights_get_nan_speed:
  "compute_curvature rect_pts = rect_curvature
   \<and> raw_speeds 80 40 (compute_curvature rect_pts)
       = Inr ([Fin 40] @ replicate 29 NaN @ [Fin 40] @ replicate 19 NaN
              @ [Fin 40] @ replicate 29 NaN @ [Fin 40] @ replicate 19 NaN)"
  using compute_curvature_unit_edges [OF rect_unit] rect_cross rect_raw_speeds by simp


section \<open>The racing-line file: distances and speeds\<close>

lemma length_seg_lengths [simp]: "length (seg_lengths ps) = length ps - 1"
  by (induction ps rule: seg_lengths.induct) simp_all


lemma length_cumsum_from [simp]: "length (cumsum_from acc xs) = length xs"
  by (induction xs arbitrary: acc) simp_all




lemma length_cum_dist [simp]: "length (cum_dist ps) = length ps"
  by (cases ps) (simp_all add: cum_dist_def)


lemma argmin_nonempty: "ds \<noteq> [] \<Longrightarrow> \<exists>i. argmin ds = Inr i"
  by (cases ds) (simp_all add: argmin_def)

lemma length_roll_back [simp]: "length (roll_back k xs) = length xs"
  by (simp add: roll_back_def)

lemma reindex_nonempty:
  assumes "centerline \<noteq> []"
  shows "\<exists>cl. reindex sc centerline = Inr cl \<and> length cl = length centerline"
proof (cases "start_marker sc")
  case None
  then show ?thesis by (simp add: reindex_def find_start_index_def)
next
  case (Some pos)
  from argmin_nonempty [of "map (\<lambda>p. (fst p - fst pos)\<^sup>2 + (fst (snd p) - fst (snd pos))\<^sup>2) centerline"]
  obtain i where "argmin (map (\<lambda>p. (fst p - fst pos)\<^sup>2 + (fst (snd p) - fst (snd pos))\<^sup>2) centerline) = Inr i"
    using assms by auto
  then show ?thesis using Some by (simp add: reindex_def find_start_index_def)
qed

lemma length_convolve_same [simp]:
  "length (convolve_same a v) = max (length a) (length v)"
  by (simp add: convolve_same_def Let_def)

lemma compute_speeds_nonempty:
  assumes "curvature \<noteq> []"
  shows "\<exists>speeds. compute_speeds D M curvature = Inr speeds \<and> length curvature \<le> length speeds
           \<and> speeds \<noteq> []"
proof -
  from assms obtain rs where rs: "raw_speeds D M curvature = Inr rs" "length rs = length curvature"
    by (auto simp add: raw_speeds_def Let_def)
  have len: "length (convolve_same rs (replicate 15 (1 / 15))) = max (length curvature) 15"
    by (simp add: rs(2))
  then have "convolve_same rs (replicate 15 (1 / 15)) \<noteq> []"
    by (metis length_0_conv max_nat.eq_neutr_iff zero_neq_numeral)
  then show ?thesis using rs(1) len by (simp add: compute_speeds_def)
qed

lemma fl_max_nonempty: "xs \<noteq> [] \<Longrightarrow> \<exists>m. fl_max xs = Inr m"
  by (cases xs) (simp_all add: fl_max_def)

text \<open>
  On a non-empty centerline and a path with a directory part \<open>write_ai_file\<close> does not
  raise; the lemma names the file it writes and its header, points and speed section.
\<close>

lemma write_ai_file_written:
  assumes "centerline \<noteq> []" and "dirname output_path \<noteq> []"
  shows "\<exists>cl speeds f.
           reindex sc centerline = Inr cl \<and> length cl = length centerline
           \<and> compute_speeds D M (compute_curvature (map (\<lambda>p. (fst p, fst (snd p))) cl)) = Inr speeds
           \<and> write_ai_file D M sc centerline output_path fs
               = (None, fs\<lparr>dirs := insert (dirname output_path) (dirs fs),
                           files := (files fs)(output_path := Some f)\<rparr>)
           \<and> header f = [7, int (length cl), 0, 0]
           \<and> points f = map (\<lambda>i. (map to_ac cl ! i, cum_dist (map to_ac cl) ! i, int i)) [0..<length cl]
           \<and> speed_section f
               = (int (length cl), map (\<lambda>i. fl_div (speeds ! i) (Fin (36 / 10))) [0..<length cl])"
proof -
  from reindex_nonempty [OF assms(1)] obtain cl where
    cl: "reindex sc centerline = Inr cl" "length cl = length centerline" by blast
  have "compute_curvature (map (\<lambda>p. (fst p, fst (snd p))) cl) \<noteq> []"
    using cl(2) assms(1) by (simp add: compute_curvature_def)
  from compute_speeds_nonempty [OF this] obtain speeds where
    sp: "compute_speeds D M (compute_curvature (map (\<lambda>p. (fst p, fst (snd p))) cl)) = Inr speeds"
      "speeds \<noteq> []" by blast
  from fl_max_nonempty [OF sp(2)] obtain m where m: "fl_max speeds = Inr m" by blast
  define f where "f = snd (write_ai_file D M sc centerline output_path fs)"
  have w: "write_ai_file D M sc centerline output_path fs
             = (None, fs\<lparr>dirs := insert (dirname output_path) (dirs fs),
                         files := (files fs)(output_path := files f output_path)\<rparr>)"
    unfolding f_def using assms(2) cl sp(1) m by (simp add: write_ai_file_def Let_def)
  obtain g where g: "files f output_path = Some g"
    "header g = [7, int (length cl), 0, 0]"
    "points g = map (\<lambda>i. (map to_ac cl ! i, cum_dist (map to_ac cl) ! i, int i)) [0..<length cl]"
    "speed_section g
       = (int (length cl), map (\<lambda>i. fl_div (speeds ! i) (Fin (36 / 10))) [0..<length cl])"
    unfolding f_def using assms(2) cl sp(1) m by (simp add: write_ai_file_def Let_def)
  show ?thesis
    using cl sp(1) w g by auto
qed

lemma dirname_OUTPUT_PATH: "dirname OUTPUT_PATH = ''mod/pista_caudina/ai''"
  by code_simp





text \<open>
  C9. In the file written for a non-empty centerline, the speed section holds one value
  for each point, and value \<open>i\<close> is entry \<open>i\<close> of the smoothed speeds of \<open>compute_speeds\<close>
  divided by 3.6.
\<close>

theorem speed_section_is_speed_over_3_6:
  assumes "centerline \<noteq> []" and "dirname output_path \<noteq> []"
  shows "\<exists>f cl speeds.
           files (snd (write_ai_file D M sc centerline output_path fs)) output_path = Some f
           \<and> reindex sc centerline = Inr cl
           \<and> compute_speeds D M (compute_curvature (map (\<lambda>p. (fst p, fst (snd p))) cl)) = Inr speeds
           \<and> fst (speed_section f) = int (length centerline)
           \<and> length (snd (speed_section f)) = length centerline
           \<and> (\<forall>i < length centerline.
                 snd (speed_section f) ! i = fl_div (speeds ! i) (Fin (36 / 10)))"
proof -
  from write_ai_file_written [OF assms, of sc D M fs] obtain cl speeds f where
    cl: "reindex sc centerline = Inr cl" "length cl = length centerline"
    and sp: "compute_speeds D M (compute_curvature (map (\<lambda>p. (fst p, fst (snd p))) cl)) = Inr speeds"
    and w: "write_ai_file D M sc centerline output_path fs
              = (None, fs\<lparr>dirs := insert (dirname output_path) (dirs fs),
                          files := (files fs)(output_path := Some f)\<rparr>)"
    and s: "speed_section f
              = (int (length cl), map (\<lambda>i. fl_div (speeds ! i) (Fin (36 / 10))) [0..<length cl])"
    by blast
  show ?thesis
    using cl sp by (intro exI [of _ f] exI [of _ cl] exI [of _ speeds]) (simp add: w s)
qed

theorem speed_section_is_speed_over_3_6_witness:
  "\<exists>f cl speeds.
     files (snd (write_ai_file 80 40 \<lparr>road = None, start_marker = None\<rparr>
                   [(0, 0, 0), (3, 4, 0), (3, 0, 0)] OUTPUT_PATH empty_fs)) OUTPUT_PATH = Some f
     \<and> reindex \<lparr>road = None, start_marker = None\<rparr> [(0, 0, 0), (3, 4, 0), (3, 0, 0)] = Inr cl
     \<and> compute_speeds 80 40 (compute_curvature (map (\<lambda>p. (fst p, fst (snd p))) cl)) = Inr speeds
     \<and> fst (speed_section f) = 3
     \<and> length (snd (speed_section f)) = 3
     \<and> (\<forall>i < 3. snd (speed_section f) ! i = fl_div (speeds ! i) (Fin (36 / 10)))"
  using speed_section_is_speed_over_3_6 [of "[(0, 0, 0), (3, 4, 0), (3, 0, 0)]" OUTPUT_PATH
          80 40 "\<lparr>road = None, start_marker = None\<rparr>" empty_fs]
  by (simp add: dirname_OUTPUT_PATH numeral_3_eq_3)


section \<open>What a successful write has written\<close>

lemma write_all_Cons_Inr:
  "write_all (w # ws) = Inr bs \<longleftrightarrow> (\<exists>b bs'. w = Inr b \<and> write_all ws = Inr bs' \<and> bs = b @ bs')"
  by (auto split: sum.splits)

lemma write_all_Nil_Inr: "write_all [] = Inr bs \<longleftrightarrow> bs = []"
  by auto

lemma write_all_Inl_Cons [simp]: "write_all (Inl e # ws) = Inl e"
  by simp


declare write_all.simps(2) [simp del]

lemma pack_i_Inr: "pack_i v = Inr b \<longleftrightarrow> (- (2 ^ 31) \<le> v \<and> v < 2 ^ 31 \<and> b = le32 (word_of_int v))"
  by (auto simp add: pack_i_def)

lemma pack_H_Inr: "pack_H v = Inr b \<longleftrightarrow> (0 \<le> v \<and> v \<le> 65535 \<and> b = le16 (word_of_int v))"
  by (auto simp add: pack_H_def)

lemma pack_B_Inr: "pack_B v = Inr b \<longleftrightarrow> (0 \<le> v \<and> v \<le> 255 \<and> b = [word_of_int v])"
  by (auto simp add: pack_B_def)

lemma pack_f_Inr: "pack_f f32 x = Inr b \<longleftrightarrow> (f32 x \<noteq> None \<and> b = le32 (f32_bits f32 x))"
  by (auto simp add: pack_f_def f32_bits_def split: option.splits)

lemma pack_3f_Inr:
  "pack_3f f32 v = Inr b \<Longrightarrow>
     b = le32 (fst (f32_bits3 f32 v)) @ le32 (fst (snd (f32_bits3 f32 v)))
         @ le32 (snd (snd (f32_bits3 f32 v)))"
  by (auto simp add: pack_3f_def f32_bits3_def write_all_Cons_Inr pack_f_Inr split: prod.splits)

lemma pack_2f_Inr:
  "pack_2f f32 v = Inr b \<Longrightarrow>
     b = le32 (fst (f32_bits2 f32 v)) @ le32 (snd (f32_bits2 f32 v))"
  by (auto simp add: pack_2f_def f32_bits2_def write_all_Cons_Inr pack_f_Inr split: prod.splits)

lemma write_string_Inr:
  "write_string data = Inr b \<longleftrightarrow> (int (length data) < 2 ^ 31 \<and> b = le32 (word_of_int (int (length data))) @ data)"
  by (auto simp add: write_string_def write_all_Cons_Inr pack_i_Inr)

lemma f32_at_le32_0 [simp]: "f32_at (le32 w @ r) 0 = w"
  by (simp add: f32_at_def)

lemma f32_at_le32_skip: "4 \<le> k \<Longrightarrow> f32_at (le32 w @ r) k = f32_at r (k - 4)"
  by (simp add: f32_at_def)

lemma write_vertex_Inr:
  assumes "write_vertex f32 v = Inr b"
  shows "length b = 44"
    and "read_vertex (b @ r) 0
           = Inr (f32_bits3 f32 (fst v), f32_bits3 f32 (fst (snd v)), f32_bits2 f32 (fst (snd (snd v))))"
proof -
  obtain pos normal uv tangent where v: "v = (pos, normal, uv, tangent)"
    by (cases v) auto
  from assms obtain b1 b2 b3 b4 where
    p: "pack_3f f32 pos = Inr b1" "pack_3f f32 normal = Inr b2" "pack_2f f32 uv = Inr b3"
       "pack_3f f32 tangent = Inr b4" and b: "b = b1 @ b2 @ b3 @ b4"
    by (auto simp add: write_vertex_def v write_all_Cons_Inr)
  note e = pack_3f_Inr [OF p(1)] pack_3f_Inr [OF p(2)] pack_2f_Inr [OF p(3)] pack_3f_Inr [OF p(4)]
  show "length b = 44" by (simp add: b e)
  show "read_vertex (b @ r) 0
           = Inr (f32_bits3 f32 (fst v), f32_bits3 f32 (fst (snd v)), f32_bits2 f32 (fst (snd (snd v))))"
    unfolding b v
    by (subst e(1), subst e(2), subst e(3), subst e(4))
       (simp add: read_vertex_def f32_at_le32_skip)
qed

section \<open>Reading back a written mesh node\<close>

lemma read_vertex_shift:
  "length b = 44 \<Longrightarrow> read_vertex (b @ raw) (Suc i) = read_vertex raw i"
  by (simp add: read_vertex_def f32_at_def Let_def ac_simps)

lemma read_vertex_0_prefix:
  "length b = 44 \<Longrightarrow> read_vertex (b @ raw) 0 = read_vertex b 0"
  by (simp add: read_vertex_def f32_at_def Let_def)

lemma collect_map_Inr [simp]: "collect (map Inr xs) = Inr xs"
  by (induction xs) simp_all

lemma write_vertices_Inr:
  assumes "write_all (map (write_vertex f32) vs) = Inr vb"
  shows "length vb = 44 * length vs \<and>
         collect (map (read_vertex vb) [0..<length vs])
           = Inr (map (\<lambda>v. (f32_bits3 f32 (fst v), f32_bits3 f32 (fst (snd v)),
                               f32_bits2 f32 (fst (snd (snd v))))) vs)"
  using assms
proof (induction vs arbitrary: vb)
  case Nil
  then show ?case by simp
next
  case (Cons v vs)
  from Cons.prems obtain b vb' where
    b: "write_vertex f32 v = Inr b" and vb': "write_all (map (write_vertex f32) vs) = Inr vb'"
    and vb: "vb = b @ vb'"
    by (auto simp add: write_all_Cons_Inr)
  note len = write_vertex_Inr(1) [OF b]
  have shift: "map (read_vertex (b @ vb')) (map Suc [0..<length vs]) = map (read_vertex vb') [0..<length vs]"
    by (simp add: read_vertex_shift [OF len])
  have upt: "[0..<length (v # vs)] = 0 # map Suc [0..<length vs]"
    by (simp only: length_Cons map_Suc_upt upt_conv_Cons [OF zero_less_Suc])
  show ?case
    using Cons.IH [OF vb'] write_vertex_Inr(2) [OF b, of vb'] len
    by (simp only: upt vb list.map shift) simp
qed

lemma write_indices_Inr:
  "write_indices ixs = Inr ib \<Longrightarrow>
     ib = concat (map (\<lambda>i. le16 (word_of_int i)) ixs) \<and> (\<forall>i\<in>set ixs. 0 \<le> i \<and> i \<le> 65535)
     \<and> 3 dvd length ixs"
proof (induction ixs arbitrary: ib rule: write_indices.induct)
  case 1
  then show ?case by simp
next
  case (2 a)
  then show ?case by (simp add: write_all_Cons_Inr)
next
  case (3 a b)
  then show ?case by (simp add: write_all_Cons_Inr)
next
  case (4 a b c rest)
  from "4.prems" obtain ib' where r: "write_indices rest = Inr ib'"
    and ib: "ib = le16 (word_of_int a) @ le16 (word_of_int b) @ le16 (word_of_int c) @ ib'"
    and rng: "0 \<le> a \<and> a \<le> 65535" "0 \<le> b \<and> b \<le> 65535" "0 \<le> c \<and> c \<le> 65535"
    by (auto simp add: write_all_Cons_Inr pack_H_Inr)
  have "3 dvd length rest \<Longrightarrow> 3 dvd length (a # b # c # rest)"
    by simp presburger
  then show ?case using "4.IH" [OF r] ib rng by simp
qed

lemma u16_array_le16 [simp]: "u16_array (le16 w @ r) = w # u16_array r"
proof -
  obtain a b where ab: "le16 w = [a, b]" by (simp add: le16_def)
  have "from_le16 [a, b] = w" using from_le16_le16 [of w] by (simp add: ab)
  then show ?thesis by (simp add: ab)
qed

lemma u16_array_concat: "u16_array (concat (map le16 ws)) = ws"
  by (induction ws) simp_all

lemma length_concat_le16: "length (concat (map (\<lambda>i. le16 (f i)) xs)) = 2 * length xs"
  by (induction xs) simp_all


lemma skip_mesh_trailer_drop: "skip_mesh_trailer bs = drop 29 bs"
  by (simp add: skip_mesh_trailer_def read_def Let_def)

lemma read_exact: "int (length a) = n \<Longrightarrow> read n (a @ b) = (a, b)"
  using read_append [of a b] by simp

lemma parse_mesh_body_written:
  assumes vb: "write_all (map (write_vertex f32) vs) = Inr vb"
    and ib: "write_indices ixs = Inr ib"
    and nv: "int (length vs) < 2 ^ 31"
    and ni: "int (length ixs) < 2 ^ 31"
    and mat: "- (2 ^ 31) \<le> material_id" "material_id < 2 ^ 31"
    and tr: "length trailer = 29"
  shows "parse_mesh_body name
           ([1, 1, 0] @ le32 (word_of_nat (length vs)) @ vb
              @ le32 (word_of_nat (length ixs)) @ ib
              @ le32 (word_of_int material_id) @ trailer @ rest)
         = Inr (mesh_as_written f32 name vs ixs material_id, rest)"
proof -
  let ?enc = "\<lambda>v. (f32_bits3 f32 (fst v), f32_bits3 f32 (fst (snd v)), f32_bits2 f32 (fst (snd (snd v))))"
  let ?after_v = "le32 (word_of_nat (length ixs)) @ ib
              @ le32 (word_of_int material_id) @ trailer @ rest"
  let ?after_i = "le32 (word_of_int material_id) @ trailer @ rest"
  from write_vertices_Inr [OF vb] have
    lvb: "length vb = 44 * length vs"
    and vs: "collect (map (read_vertex vb) [0..<length vs]) = Inr (map ?enc vs)"
    by simp_all
  from write_indices_Inr [OF ib] have
    ibs: "ib = concat (map (\<lambda>i. le16 (word_of_int i)) ixs)" by simp
  have lib: "length ib = 2 * length ixs"
    by (simp add: ibs length_concat_le16)
  have u16: "u16_array ib = map word_of_int ixs"
    using u16_array_concat [of "map word_of_int ixs"] by (simp add: ibs comp_def)
  have s1: "sint (word_of_nat (length vs) :: 32 word) = int (length vs)"
    using nv sint_word_of_int_32 [of "int (length vs)"] by simp
  have s2: "sint (word_of_nat (length ixs) :: 32 word) = int (length ixs)"
    using ni sint_word_of_int_32 [of "int (length ixs)"] by simp
  have s3: "sint (word_of_int material_id :: 32 word) = material_id"
    using mat by (simp add: sint_word_of_int_32)
  have r0: "snd (read 3 ([1, 1, 0] @ le32 (word_of_nat (length vs)) @ vb @ ?after_v))
              = le32 (word_of_nat (length vs)) @ vb @ ?after_v"
    by (simp add: read_def)
  have r1: "read (int (length vs) * 44) (vb @ ?after_v) = (vb, ?after_v)"
    by (rule read_exact) (simp add: lvb)
  have r2: "read (int (length ixs) * 2) (ib @ ?after_i) = (ib, ?after_i)"
    by (rule read_exact) (simp add: lib)
  have r3: "skip_mesh_trailer (trailer @ rest) = rest"
    by (simp add: skip_mesh_trailer_drop tr)
  show ?thesis
    unfolding parse_mesh_body_def Let_def r0
    by (simp add: s1 s2 s3 r1 r2 r3 vs lib u16 mesh_as_written_def comp_def)
qed


lemma write_mesh_node_Inr:
  assumes "write_mesh_node f32 name vs ixs material_id = Inr bs"
  obtains vb ib trailer where
    "write_all (map (write_vertex f32) vs) = Inr vb"
    "write_indices ixs = Inr ib"
    "int (length name) < 2 ^ 31" "int (length vs) < 2 ^ 31" "int (length ixs) < 2 ^ 31"
    "- (2 ^ 31) \<le> material_id" "material_id < 2 ^ 31"
    "length trailer = 29"
    "bs = le32 2 @ (le32 (word_of_nat (length name)) @ name) @ le32 0 @ [1]
          @ [1, 1, 0] @ le32 (word_of_nat (length vs)) @ vb
          @ le32 (word_of_nat (length ixs)) @ ib
          @ le32 (word_of_int material_id) @ trailer"
proof -
  obtain cx cy cz radius where c: "compute_bounding_sphere vs = (cx, cy, cz, radius)"
    by (cases "compute_bounding_sphere vs") auto
  from assms obtain vb ib b0 b1 b2 b3 where
    vb: "write_all (map (write_vertex f32) vs) = Inr vb"
    and ib: "write_indices ixs = Inr ib"
    and rng: "int (length name) < 2 ^ 31" "int (length vs) < 2 ^ 31" "int (length ixs) < 2 ^ 31"
      "- (2 ^ 31) \<le> material_id" "material_id < 2 ^ 31"
    and fl: "pack_f f32 0 = Inr b0" "pack_3f f32 (cx, cy, cz) = Inr b2" "pack_f f32 radius = Inr b3"
    and bs: "bs = le32 2 @ (le32 (word_of_nat (length name)) @ name) @ le32 0 @ [1]
          @ [1, 1, 0] @ le32 (word_of_nat (length vs)) @ vb
          @ le32 (word_of_nat (length ixs)) @ ib
          @ le32 (word_of_int material_id) @ (le32 0 @ b0 @ b0 @ b2 @ b3 @ [1])"
    by (auto simp add: write_mesh_node_def c write_all_Cons_Inr pack_i_Inr pack_B_Inr
          write_string_Inr)
  have "length (le32 0 @ b0 @ b0 @ b2 @ b3 @ [1]) = 29"
    using fl pack_3f_Inr [OF fl(2)] by (auto simp add: pack_f_Inr)
  then show ?thesis
    using that [OF vb ib rng _ bs] by blast
qed

text \<open>
  C1 (as the code has it). A mesh node that \<open>write_mesh_node\<close> has written without an
  exception, under a name of at most 10000 bytes, is read back by \<open>parse_node\<close> as one
  mesh: the position, normal and texture coordinate of every vertex as the 32-bit
  patterns written, the same indices, the same material id; nothing of the node is
  left in the stream. That the write succeeded means that the index list is a whole
  number of triples of values in \<open>0..65535\<close> and the material id a signed 32-bit value.
\<close>

theorem mesh_node_round_trip:
  assumes w: "write_mesh_node f32 name vertices indices material_id = Inr bs"
    and n: "length name \<le> 10000"
  shows "parse_node (Suc depth) (bs @ rest, meshes)
           = Inr (rest, meshes @ [mesh_as_written f32 name vertices indices material_id])"
proof -
  from write_mesh_node_Inr [OF w] obtain vb ib trailer where
    vb: "write_all (map (write_vertex f32) vertices) = Inr vb"
    and ib: "write_indices indices = Inr ib"
    and rng: "int (length vertices) < 2 ^ 31" "int (length indices) < 2 ^ 31"
      "- (2 ^ 31) \<le> material_id" "material_id < 2 ^ 31"
    and tr: "length trailer = 29"
    and bs: "bs = le32 2 @ (le32 (word_of_nat (length name)) @ name) @ le32 0 @ [1]
          @ [1, 1, 0] @ le32 (word_of_nat (length vertices)) @ vb
          @ le32 (word_of_nat (length indices)) @ ib
          @ le32 (word_of_int material_id) @ trailer"
    by metis
  let ?body = "[1, 1, 0] @ le32 (word_of_nat (length vertices)) @ vb
          @ le32 (word_of_nat (length indices)) @ ib
          @ le32 (word_of_int material_id) @ trailer @ rest"
  have ln: "sint (word_of_nat (length name) :: 32 word) = int (length name)"
    using n sint_word_of_int_32 [of "int (length name)"] by simp
  have rs: "read_string (le32 (word_of_nat (length name)) @ name @ le32 0 @ [1] @ ?body)
              = Inr (name, le32 0 @ [1] @ ?body)"
    using n by (simp add: read_string_declared ln)
  have body: "parse_mesh_body name ?body
                = Inr (mesh_as_written f32 name vertices indices material_id, rest)"
    by (rule parse_mesh_body_written [OF vb ib rng tr])
  have fl: "unpack_B (fst (read 1 ([1] @ ?body))) = Inr 1" "snd (read 1 ([1] @ ?body)) = ?body"
    by (simp_all add: unpack_B_def read_def)
  show ?thesis
    by (simp add: bs rs body fl del: append_Cons)
qed

lemma sqrt_25: "sqrt 25 = 5"
  using real_sqrt_abs [of 5] by simp

lemma triangle_written:
  "\<exists>bs. write_mesh_node f32_example [0x74, 0x72, 0x69]
     [((0, 0, 0), (0, 0, 1), (0, 0), (1, 0, 0)),
      ((6, 0, 0), (0, 0, 1), (1, 0), (1, 0, 0)),
      ((6, 8, 0), (0, 0, 1), (1, 1), (1, 0, 0))] [0, 1, 2] 5 = Inr bs"
  by (simp add: write_mesh_node_def compute_bounding_sphere_def min_list_of_def max_list_of_def
      norm3_def vsub_def sqrt_25 Let_def write_all.simps write_vertex_def pack_3f_def pack_2f_def
      pack_f_def f32_example_def pack_i_def pack_H_def pack_B_def write_string_def)

theorem mesh_node_round_trip_witness:
  "\<exists>bs. write_mesh_node f32_example [0x74, 0x72, 0x69]
          [((0, 0, 0), (0, 0, 1), (0, 0), (1, 0, 0)),
           ((6, 0, 0), (0, 0, 1), (1, 0), (1, 0, 0)),
           ((6, 8, 0), (0, 0, 1), (1, 1), (1, 0, 0))] [0, 1, 2] 5 = Inr bs
      \<and> parse_node 1 (bs, [])
          = Inr ([], [\<lparr>mesh_name = [0x74, 0x72, 0x69],
                        mesh_verts = [(0, 0, 0), (393216, 0, 0), (393216, 524288, 0)],
                        mesh_normals = [(0, 0, 65536), (0, 0, 65536), (0, 0, 65536)],
                        mesh_uvs = [(0, 0), (65536, 0), (65536, 65536)],
                        mesh_indices = [0, 1, 2],
                        mesh_mat_id = 5,
                        mesh_tri_count = 1\<rparr>])"
proof -
  from triangle_written obtain bs where
    w: "write_mesh_node f32_example [0x74, 0x72, 0x69]
          [((0, 0, 0), (0, 0, 1), (0, 0), (1, 0, 0)),
           ((6, 0, 0), (0, 0, 1), (1, 0), (1, 0, 0)),
           ((6, 8, 0), (0, 0, 1), (1, 1), (1, 0, 0))] [0, 1, 2] 5 = Inr bs"
    by blast
  show ?thesis
    using mesh_node_round_trip [OF w, of 0 "[]" "[]"] w
    by (simp add: mesh_as_written_def f32_bits3_def f32_bits2_def f32_bits_def f32_example_def)
qed

text \<open>
  C1 as the specification states it fails: it puts no bound on the name. A mesh node
  with no vertices, no indices, material 0 and a name of 10001 bytes is written without
  an exception (only the value \<open>0.0\<close> is packed as a float), and \<open>parse_node\<close> raises on
  its name.
\<close>

theorem long_name_not_read_back:
  "write_mesh_node f32_example (replicate 10001 97) [] [] 0
     = Inr (le32 2 @ (le32 10001 @ replicate 10001 97) @ le32 0 @ [1] @ [1, 1, 0]
            @ le32 0 @ le32 0 @ le32 0
            @ le32 0 @ le32 0 @ le32 0 @ le32 0 @ le32 0 @ le32 0 @ le32 0 @ [1])
   \<and> parse_node 1 (le32 2 @ (le32 10001 @ replicate 10001 97) @ le32 0 @ [1] @ [1, 1, 0]
            @ le32 0 @ le32 0 @ le32 0
            @ le32 0 @ le32 0 @ le32 0 @ le32 0 @ le32 0 @ le32 0 @ le32 0 @ [1], [])
       = Inl (BadStringLength 10001)"
proof
  show "write_mesh_node f32_example (replicate 10001 97) [] [] 0
     = Inr (le32 2 @ (le32 10001 @ replicate 10001 97) @ le32 0 @ [1] @ [1, 1, 0]
            @ le32 0 @ le32 0 @ le32 0
            @ le32 0 @ le32 0 @ le32 0 @ le32 0 @ le32 0 @ le32 0 @ le32 0 @ [1])"
    by (simp add: write_mesh_node_def compute_bounding_sphere_def write_all.simps
        pack_3f_def pack_f_def f32_example_def pack_i_def pack_B_def write_string_def)
  have "sint (10001 :: 32 word) = 10001" by simp
  then show "parse_node 1 (le32 2 @ (le32 10001 @ replicate 10001 97) @ le32 0 @ [1] @ [1, 1, 0]
            @ le32 0 @ le32 0 @ le32 0
            @ le32 0 @ le32 0 @ le32 0 @ le32 0 @ le32 0 @ le32 0 @ le32 0 @ [1], [])
       = Inl (BadStringLength 10001)"
    by (simp add: read_string_declared del: append_Cons)
qed

section \<open>More than 65535 vertices in one mesh\<close>

lemma corner_inv_step:
  assumes "corner_inv st"
  shows "corner_inv (add_corner st c)"
proof -
  obtain vs ixs m where st: "st = (vs, ixs, m)" by (cases st) auto
  obtain pos normal uv tangent where c: "c = (pos, normal, uv, tangent)" by (cases c) auto
  from assms have m: "\<And>k i. m k = Some i \<Longrightarrow> 0 \<le> i \<and> i < int (length vs)"
    and ix: "\<And>i. i \<in> set ixs \<Longrightarrow> 0 \<le> i \<and> i < int (length vs)"
    and all: "\<And>j. j < length vs \<Longrightarrow> int j \<in> set ixs"
    unfolding corner_inv_def st by (simp_all del: split_paired_All)
  show ?thesis
  proof (cases "m (pos, normal, uv)")
    case None
    have a: "add_corner st c
               = (vs @ [(pos, normal, uv, tangent)], ixs @ [int (length vs)],
                  m((pos, normal, uv) \<mapsto> int (length vs)))"
      by (simp add: add_corner_def st c None)
    have g1: "\<forall>k i. (m((pos, normal, uv) \<mapsto> int (length vs))) k = Some i
              \<longrightarrow> 0 \<le> i \<and> i < int (length (vs @ [(pos, normal, uv, tangent)]))"
    proof (intro allI impI)
      fix k i
      assume h: "(m((pos, normal, uv) \<mapsto> int (length vs))) k = Some i"
      show "0 \<le> i \<and> i < int (length (vs @ [(pos, normal, uv, tangent)]))"
      proof (cases "k = (pos, normal, uv)")
        case True
        then have "i = int (length vs)" using h by simp
        then show ?thesis by simp
      next
        case False
        then have "m k = Some i" using h by simp
        from m [OF this] show ?thesis by simp
      qed
    qed
    have g2: "\<forall>i\<in>set (ixs @ [int (length vs)]).
                0 \<le> i \<and> i < int (length (vs @ [(pos, normal, uv, tangent)]))"
      using ix by fastforce
    have g3: "\<forall>j < length (vs @ [(pos, normal, uv, tangent)]). int j \<in> set (ixs @ [int (length vs)])"
      using all by (auto simp add: less_Suc_eq)
    show ?thesis
      unfolding a corner_inv_def prod.case using g1 g2 g3 by blast
  next
    case (Some i0)
    have a: "add_corner st c = (vs, ixs @ [i0], m)"
      by (simp add: add_corner_def st c Some)
    have g1: "\<forall>k i. m k = Some i \<longrightarrow> 0 \<le> i \<and> i < int (length vs)"
      using m by blast
    have g2: "\<forall>i\<in>set (ixs @ [i0]). 0 \<le> i \<and> i < int (length vs)"
      using ix m [OF Some] by auto
    have g3: "\<forall>j < length vs. int j \<in> set (ixs @ [i0])"
      using all by simp
    show ?thesis
      unfolding a corner_inv_def prod.case using g1 g2 g3 by blast
  qed
qed

lemma corner_inv_foldl: "corner_inv st \<Longrightarrow> corner_inv (foldl add_corner st cs)"
  by (induction cs arbitrary: st) (simp_all add: corner_inv_step)

lemma get_mesh_data_indices:
  assumes "get_mesh_data obj = (verts, ixs, warnings)"
  shows "(\<forall>i\<in>set ixs. 0 \<le> i \<and> i < int (length verts))"
    and "(\<forall>j < length verts. int j \<in> set ixs)"
    and "warnings = (if length verts > 65535 then [TooManyVerts (obj_name obj) (length verts)] else [])"
proof -
  have "corner_inv (foldl add_corner ([], [], Map.empty) (concat (polygons obj)))"
    by (rule corner_inv_foldl) (simp add: corner_inv_def)
  then show "(\<forall>i\<in>set ixs. 0 \<le> i \<and> i < int (length verts))"
    and "(\<forall>j < length verts. int j \<in> set ixs)"
    and "warnings = (if length verts > 65535 then [TooManyVerts (obj_name obj) (length verts)] else [])"
    using assms by (auto simp add: get_mesh_data_def corner_inv_def split: prod.splits
        simp del: split_paired_All)
qed

lemma write_indices_out_of_range:
  "\<exists>i\<in>set ixs. i < 0 \<or> 65535 < i \<Longrightarrow> write_indices ixs = Inl StructError"
proof (induction ixs rule: write_indices.induct)
  case 1
  then show ?case by simp
next
  case (2 a)
  then show ?case by (auto simp add: pack_H_def write_all.simps)
next
  case (3 a b)
  then show ?case by (auto simp add: pack_H_def write_all.simps)
next
  case (4 a b c rest)
  show ?case
  proof (cases "\<exists>i\<in>set rest. i < 0 \<or> 65535 < i")
    case True
    then show ?thesis using "4.IH" by (simp add: pack_H_def write_all.simps)
  next
    case False
    then show ?thesis using "4.prems" by (auto simp add: pack_H_def write_all.simps)
  qed
qed

lemma write_indices_in_range:
  "\<forall>i\<in>set ixs. 0 \<le> i \<and> i \<le> 65535 \<Longrightarrow> 3 dvd length ixs \<Longrightarrow> \<exists>ib. write_indices ixs = Inr ib"
proof (induction ixs rule: write_indices.induct)
  case 1
  then show ?case by simp
next
  case (2 a)
  then show ?case by simp
next
  case (3 a b)
  from "3.prems"(2) have False by simp presburger
  then show ?case ..
next
  case (4 a b c rest)
  have "3 dvd length rest" using "4.prems"(2) by simp presburger
  then obtain ib where "write_indices rest = Inr ib" using 4 by auto
  then show ?case using "4.prems"(1) by (simp add: pack_H_def write_all.simps)
qed

lemma write_mesh_node_isl:
  assumes "write_indices ixs = Inl e"
  shows "isl (write_mesh_node f32 name vs ixs material_id)"
proof (cases "write_mesh_node f32 name vs ixs material_id")
  case (Inl a)
  then show ?thesis by simp
next
  case (Inr bs)
  from write_mesh_node_Inr [OF Inr] obtain ib where "write_indices ixs = Inr ib" by metis
  then show ?thesis using assms by simp
qed

lemma write_meshes_isl:
  assumes "obj \<in> set objs" and "isl (write_node f32 (mesh_node mm obj))"
  shows "isl (snd (write_meshes f32 mm objs))"
  using assms
proof (induction objs)
  case Nil
  then show ?case by simp
next
  case (Cons o1 objs)
  show ?case
  proof (cases "write_node f32 (mesh_node mm o1)")
    case (Inl e)
    then show ?thesis by simp
  next
    case (Inr b)
    then have "obj \<in> set objs" using Cons.prems by auto
    then have "isl (snd (write_meshes f32 mm objs))" using Cons by simp
    then show ?thesis using Inr by (auto simp add: isl_def Let_def split: prod.splits sum.splits)
  qed
qed

lemma main_kn5_isl:
  assumes "isl (snd (write_meshes f32 mm objs))"
  shows "isl (snd (main_kn5 f32 objs empties mats mm texs))"
  using assms
  by (auto simp add: main_kn5_def isl_def split: prod.splits sum.splits)

lemma length_foldl_add_corner:
  "length (fst (snd (foldl add_corner st cs))) = length (fst (snd st)) + length cs"
proof (induction cs arbitrary: st)
  case Nil
  then show ?case by simp
next
  case (Cons c cs)
  have "length (fst (snd (add_corner st c))) = Suc (length (fst (snd st)))"
    by (cases st; cases c) (simp add: add_corner_def split: option.splits)
  then show ?case using Cons [of "add_corner st c"] by simp
qed

lemma length_indices_get_mesh_data:
  "length (fst (snd (get_mesh_data obj))) = length (concat (polygons obj))"
proof -
  obtain vs ixs m where f: "foldl add_corner ([], [], Map.empty) (concat (polygons obj)) = (vs, ixs, m)"
    by (cases "foldl add_corner ([], [], Map.empty) (concat (polygons obj))") auto
  show ?thesis
    using length_foldl_add_corner [of "([], [], Map.empty)" "concat (polygons obj)"]
    by (simp add: get_mesh_data_def f)
qed

lemma triangles_length:
  "\<forall>p\<in>set ps. length p = 3 \<Longrightarrow> length (concat ps) = 3 * length ps"
  by (induction ps) simp_all

lemma distinct_corners:
  assumes "distinct (map corner_key cs)"
  shows "\<exists>m. foldl add_corner ([], [], Map.empty) cs = (cs, map int [0..<length cs], m)
            \<and> dom m = corner_key ` set cs"
  using assms
proof (induction cs rule: rev_induct)
  case Nil
  then show ?case by simp
next
  case (snoc c cs)
  then obtain m where m: "foldl add_corner ([], [], Map.empty) cs = (cs, map int [0..<length cs], m)"
    and d: "dom m = corner_key ` set cs" by auto
  obtain pos normal uv tangent where c: "c = (pos, normal, uv, tangent)" by (cases c) auto
  have "corner_key c \<notin> corner_key ` set cs" using snoc.prems by auto
  then have n: "m (pos, normal, uv) = None"
    using d by (auto simp add: c corner_key_def)
  have "foldl add_corner ([], [], Map.empty) (cs @ [c])
          = (cs @ [c], map int [0..<length (cs @ [c])], m((pos, normal, uv) \<mapsto> int (length cs)))"
    by (simp add: m add_corner_def c n)
  moreover have "dom (m((pos, normal, uv) \<mapsto> int (length cs))) = corner_key ` set (cs @ [c])"
    using d by (auto simp add: c corner_key_def)
  ultimately show ?case by blast
qed

lemma concat_triples:
  "concat (map (\<lambda>t. [f (3 * t), f (3 * t + 1), f (3 * t + 2)]) [0..<n]) = map f [0..<3 * n]"
proof (induction n)
  case 0
  then show ?case by simp
next
  case (Suc n)
  have e: "3 * Suc n = Suc (Suc (Suc (3 * n)))" by simp
  have "[0..<3 * Suc n] = [0..<3 * n] @ [3 * n, 3 * n + 1, 3 * n + 2]"
    unfolding e by simp
  then show ?case using Suc by simp
qed

lemma many_corners_data:
  "fst (get_mesh_data (many_corners_mesh n)) = map far_corner [0..<3 * n]"
  "fst (snd (get_mesh_data (many_corners_mesh n))) = map int [0..<3 * n]"
proof -
  have cs: "concat (polygons (many_corners_mesh n)) = map far_corner [0..<3 * n]"
    by (simp only: many_corners_mesh_def mesh_object.select_convs concat_triples)
  have "inj_on (corner_key \<circ> far_corner) (set [0..<3 * n])"
    by (rule inj_onI) (simp add: corner_key_def far_corner_def)
  then have "distinct (map corner_key (map far_corner [0..<3 * n]))"
    by (simp add: distinct_map)
  from distinct_corners [OF this] obtain m where
    "foldl add_corner ([], [], Map.empty) (map far_corner [0..<3 * n])
       = (map far_corner [0..<3 * n], map int [0..<3 * n], m)" by auto
  then show "fst (get_mesh_data (many_corners_mesh n)) = map far_corner [0..<3 * n]"
    and "fst (snd (get_mesh_data (many_corners_mesh n))) = map int [0..<3 * n]"
    by (simp_all add: get_mesh_data_def cs)
qed

lemma overflow_fails:
  assumes "length (fst (get_mesh_data obj)) > 65536"
  shows "write_indices (fst (snd (get_mesh_data obj))) = Inl StructError"
    and "obj \<in> set mesh_objects \<Longrightarrow>
           isl (snd (main_kn5 f32 mesh_objects empty_objects materials_list mat_name_to_id textures))"
proof -
  obtain verts ixs ws where g: "get_mesh_data obj = (verts, ixs, ws)"
    by (cases "get_mesh_data obj") auto
  have "65536 < length verts" using assms by (simp add: g)
  then have "int 65536 \<in> set ixs" using get_mesh_data_indices(2) [OF g] by blast
  then have "\<exists>i\<in>set ixs. i < 0 \<or> 65535 < i" by force
  then have w: "write_indices ixs = Inl StructError" by (rule write_indices_out_of_range)
  then show "write_indices (fst (snd (get_mesh_data obj))) = Inl StructError" by (simp add: g)
  have "isl (write_node f32 (mesh_node mat_name_to_id obj))"
    using write_mesh_node_isl [OF w] by (simp add: mesh_node_def g)
  then show "obj \<in> set mesh_objects \<Longrightarrow>
           isl (snd (main_kn5 f32 mesh_objects empty_objects materials_list mat_name_to_id textures))"
    using write_meshes_isl main_kn5_isl by blast
qed

lemma many_corners_name: "obj_name (many_corners_mesh n) = [0x62, 0x69, 0x67]"
  by (simp add: many_corners_mesh_def)

lemma many_corners_count: "length (fst (get_mesh_data (many_corners_mesh 21846))) = 65538"
  by (simp add: many_corners_data)

text \<open>
  C6 (as the code has it). For a mesh with more than 65535 deduplicated vertices
  \<open>get_mesh_data\<close> prints the warning and returns. With exactly 65536 vertices every
  index still fits format \<open>H\<close>, and the index list of a triangulated mesh is written.
  With more than 65536 vertices the index 65536 is in the list, the index loop of
  \<open>write_mesh_node\<close> raises \<open>struct.error\<close>, and an export that contains the mesh ends
  in an exception instead of a finished file.
\<close>

theorem vertex_overflow_warns_then_fails:
  assumes "length (fst (get_mesh_data obj)) > 65535"
  shows "snd (snd (get_mesh_data obj))
           = [TooManyVerts (obj_name obj) (length (fst (get_mesh_data obj)))]
     \<and> (length (fst (get_mesh_data obj)) = 65536 \<and> (\<forall>p\<in>set (polygons obj). length p = 3)
          \<longrightarrow> (\<exists>ib. write_indices (fst (snd (get_mesh_data obj))) = Inr ib))
     \<and> (length (fst (get_mesh_data obj)) > 65536
          \<longrightarrow> write_indices (fst (snd (get_mesh_data obj))) = Inl StructError
            \<and> (obj \<in> set mesh_objects
                 \<longrightarrow> isl (snd (main_kn5 f32 mesh_objects empty_objects materials_list
                                  mat_name_to_id textures))))"
proof -
  obtain verts ixs ws where g: "get_mesh_data obj = (verts, ixs, ws)"
    by (cases "get_mesh_data obj") auto
  have warn: "snd (snd (get_mesh_data obj))
           = [TooManyVerts (obj_name obj) (length (fst (get_mesh_data obj)))]"
    using get_mesh_data_indices(3) [OF g] assms by (simp add: g)
  have fits: "\<exists>ib. write_indices (fst (snd (get_mesh_data obj))) = Inr ib"
    if "length (fst (get_mesh_data obj)) = 65536" and "\<forall>p\<in>set (polygons obj). length p = 3"
  proof -
    have "\<forall>i\<in>set ixs. 0 \<le> i \<and> i \<le> 65535"
      using get_mesh_data_indices(1) [OF g] that(1) by (fastforce simp add: g)
    moreover have "3 dvd length ixs"
      using length_indices_get_mesh_data [of obj] triangles_length [OF that(2)] by (simp add: g)
    ultimately show ?thesis
      using write_indices_in_range by (simp add: g)
  qed
  show ?thesis
    using warn fits overflow_fails [of obj] by blast
qed

theorem vertex_overflow_warns_then_fails_witness:
  "snd (snd (get_mesh_data (many_corners_mesh 21846))) = [TooManyVerts [0x62, 0x69, 0x67] 65538]
   \<and> write_indices (fst (snd (get_mesh_data (many_corners_mesh 21846)))) = Inl StructError
   \<and> isl (snd (main_kn5 f32_example [many_corners_mesh 21846] [] [] Map.empty []))"
  using vertex_overflow_warns_then_fails [of "many_corners_mesh 21846"
          "[many_corners_mesh 21846]" f32_example "[]" "[]" Map.empty "[]"]
  by (simp add: many_corners_count many_corners_name)

text \<open>
  C6 as the specification states it fails: the export of a single mesh of 21846
  triangles with 65538 distinct corners does not continue to a finished file, it ends
  in an exception.
\<close>

theorem export_aborts_on_vertex_overflow:
  "length (fst (get_mesh_data (many_corners_mesh 21846))) = 65538
   \<and> isl (snd (main_kn5 f32_example [many_corners_mesh 21846] [] [] Map.empty []))"
  using overflow_fails(2) [of "many_corners_mesh 21846" "[many_corners_mesh 21846]"
          f32_example "[]" "[]" Map.empty "[]"]
  by (simp add: many_corners_count)

section \<open>Declared child counts of the written node tree\<close>



lemma declared_mesh_node [simp]: "declared_children (mesh_node mm obj) = 0"
  by (simp add: mesh_node_def split: prod.splits)















lemma box_indices:
  "snd (make_box_mesh h)
     = [0, 1, 2, 0, 2, 3, 4, 5, 6, 4, 6, 7, 8, 9, 10, 8, 10, 11, 12, 13, 14, 12, 14, 15,
        16, 17, 18, 16, 18, 19, 20, 21, 22, 20, 22, 23]"
  by (simp add: make_box_mesh_def faces_data_def box_face_def)












end
